theory Spec2Isabelle
  imports Main "HOL-Library.Word"
begin

section \<open>Data model of the socket manager\<close>

text \<open>
  The module \<^verbatim>\<open>src/services/socketManager.ts\<close> binds Socket.IO connections to chat
  sessions kept in a Prisma repository. Each handler runs here as one function from the
  repository and the socket it serves to the new repository, the new socket and the
  events it emitted, in the order of the source. Logging is left out: it has no effect
  on the repository, the socket or the client.
\<close>

subsection \<open>JavaScript strings\<close>

text \<open>
  Message content goes through \<^verbatim>\<open>String.prototype.trim\<close>, whose white space is
  defined on UTF-16 code units, so content is a list of 16-bit code units. Identifiers
  and the fixed texts of events are plain strings.
\<close>

type_synonym js_string = "16 word list"

definition utf16 :: "string \<Rightarrow> js_string" where
  "utf16 s = map (\<lambda>c. of_nat (of_char c)) s"

text \<open>White space and line terminators of ECMAScript, the code units \<^verbatim>\<open>trim\<close> strips.\<close>

definition is_white_space :: "16 word \<Rightarrow> bool" where
  "is_white_space c =
     (c = 0x0009 \<or> c = 0x000A \<or> c = 0x000B \<or> c = 0x000C \<or> c = 0x000D \<or> c = 0x0020
      \<or> c = 0x00A0 \<or> c = 0x1680 \<or> (0x2000 \<le> c \<and> c \<le> 0x200A)
      \<or> c = 0x2028 \<or> c = 0x2029 \<or> c = 0x202F \<or> c = 0x205F \<or> c = 0x3000 \<or> c = 0xFEFF)"

definition trim :: "js_string \<Rightarrow> js_string" where
  "trim s = rev (dropWhile is_white_space (rev (dropWhile is_white_space s)))"

text \<open>
  Truthiness of an optional string: \<^verbatim>\<open>undefined\<close> and the empty string are falsy.
  \<^verbatim>\<open>a || b\<close> gives the first truthy operand, \<^verbatim>\<open>a ?? b\<close> the first that is not
  \<^verbatim>\<open>undefined\<close>.
\<close>

definition truthy :: "'a list option \<Rightarrow> bool" where
  "truthy v = (case v of None \<Rightarrow> False | Some s \<Rightarrow> s \<noteq> [])"

definition js_or :: "'a list option \<Rightarrow> 'a list option \<Rightarrow> 'a list option" where
  "js_or a b = (if truthy a then a else b)"

definition nullish :: "'a option \<Rightarrow> 'a option \<Rightarrow> 'a option" where
  "nullish a b = (case a of None \<Rightarrow> b | Some x \<Rightarrow> Some x)"

subsection \<open>Rows of the repository\<close>

text \<open>
  Modelled from the spec: the Prisma schema that declares the enums
  \<^verbatim>\<open>chat_session_status\<close> and \<^verbatim>\<open>message_role\<close> is not among the sources. The
  spec gives a session the statuses ACTIVE and CLOSED and a message the roles USER, BOT
  and SYSTEM; the module names no other member.
\<close>

datatype chat_session_status = ACTIVE | CLOSED

datatype message_role = USER | BOT | SYSTEM

text \<open>Timestamps are the milliseconds of a \<^verbatim>\<open>Date\<close>.\<close>

record chat_session =
  s_id :: string
  s_visitor_id :: string
  s_status :: chat_session_status
  s_created_at :: nat
  s_last_active_at :: nat
  s_metadata :: "string option"

record chat_message =
  m_id :: string
  m_session_id :: string
  m_role :: message_role
  m_content :: js_string
  m_created_at :: nat

record repository =
  sessions :: "chat_session list"
  messages :: "chat_message list"

datatype error = RecordNotFound | UniqueConstraint | N8nFailure

subsection \<open>Repository calls\<close>

text \<open>
  The calls of the Prisma client that the module makes, on tables kept as lists in
  insertion order. \<^verbatim>\<open>findUnique\<close> is only offered by Prisma on a unique column, so
  \<^verbatim>\<open>id\<close> is a key: a create whose id is taken throws, and so does an update of a
  row that is not there. The columns a create does not set (id, timestamps, metadata)
  are filled by the schema's defaults, which are not among the sources: the row they
  produce is a parameter of the create. Rows with equal timestamps keep their insertion
  order under \<^verbatim>\<open>orderBy\<close>; no property below depends on it.
\<close>

definition chatSession_findUnique :: "repository \<Rightarrow> string \<Rightarrow> chat_session option" where
  "chatSession_findUnique db i = find (\<lambda>s. s_id s = i) (sessions db)"

text \<open>The status a read of the session by id gives, if the session is there.\<close>

definition status_of :: "repository \<Rightarrow> string \<Rightarrow> chat_session_status option" where
  "status_of db i = map_option s_status (chatSession_findUnique db i)"

text \<open>
  \<^verbatim>\<open>findFirst\<close> with \<^verbatim>\<open>visitor_id\<close>, \<^verbatim>\<open>status: { not: CLOSED }\<close> and
  \<^verbatim>\<open>orderBy: { created_at: 'desc' }\<close>.
\<close>

definition chatSession_findFirst :: "repository \<Rightarrow> string \<Rightarrow> chat_session option" where
  "chatSession_findFirst db v =
     (case rev (sort_key s_created_at
                  (filter (\<lambda>s. s_visitor_id s = v \<and> s_status s \<noteq> CLOSED) (sessions db))) of
        [] \<Rightarrow> None
      | s # _ \<Rightarrow> Some s)"

definition chatSession_create ::
  "chat_session \<Rightarrow> repository \<Rightarrow> string \<Rightarrow> chat_session_status \<Rightarrow> error + chat_session \<times> repository"
where
  "chatSession_create defaults db v st =
     (let row = defaults\<lparr>s_visitor_id := v, s_status := st\<rparr> in
      if chatSession_findUnique db (s_id row) \<noteq> None then Inl UniqueConstraint
      else Inr (row, db\<lparr>sessions := sessions db @ [row]\<rparr>))"

text \<open>
  \<^verbatim>\<open>update\<close> with \<^verbatim>\<open>data: { last_active_at, status }\<close>, the only update the module
  makes.
\<close>

definition chatSession_update ::
  "repository \<Rightarrow> string \<Rightarrow> nat \<Rightarrow> chat_session_status \<Rightarrow> error + repository"
where
  "chatSession_update db i t st =
     (if chatSession_findUnique db i = None then Inl RecordNotFound
      else Inr (db\<lparr>sessions :=
                  map (\<lambda>s. if s_id s = i then s\<lparr>s_last_active_at := t, s_status := st\<rparr> else s)
                      (sessions db)\<rparr>))"

definition chatMessage_create ::
  "chat_message \<Rightarrow> repository \<Rightarrow> string \<Rightarrow> message_role \<Rightarrow> js_string
     \<Rightarrow> error + chat_message \<times> repository"
where
  "chatMessage_create defaults db sid r c =
     (let row = defaults\<lparr>m_session_id := sid, m_role := r, m_content := c\<rparr> in
      if find (\<lambda>m. m_id m = m_id row) (messages db) \<noteq> None then Inl UniqueConstraint
      else Inr (row, db\<lparr>messages := messages db @ [row]\<rparr>))"

text \<open>
  \<^verbatim>\<open>findMany\<close> with \<^verbatim>\<open>session_id\<close>, \<^verbatim>\<open>orderBy: { created_at: 'asc' }\<close> and
  \<^verbatim>\<open>take\<close>.
\<close>

definition chatMessage_findMany :: "repository \<Rightarrow> string \<Rightarrow> nat \<Rightarrow> chat_message list" where
  "chatMessage_findMany db sid limit =
     take limit (sort_key m_created_at (filter (\<lambda>m. m_session_id m = sid) (messages db)))"

section \<open>Session resolution and history\<close>

record ChatMessageDto =
  dto_id :: string
  dto_sender :: message_role
  dto_content :: js_string
  dto_createdAt :: nat

text \<open>\<^verbatim>\<open>createdAt\<close> is the ISO rendering of the timestamp; the timestamp stands for it.\<close>

definition mapMessage :: "chat_message \<Rightarrow> ChatMessageDto" where
  "mapMessage message =
     \<lparr>dto_id = m_id message, dto_sender = m_role message,
      dto_content = m_content message, dto_createdAt = m_created_at message\<rparr>"

text \<open>The limit is optional and defaults to 100.\<close>

definition getHistory :: "repository \<Rightarrow> string \<Rightarrow> nat option \<Rightarrow> ChatMessageDto list" where
  "getHistory db sessionId limit =
     map mapMessage
       (chatMessage_findMany db sessionId (case limit of None \<Rightarrow> 100 | Some l \<Rightarrow> l))"

text \<open>
  The first branch returns from the function; otherwise control falls through to the
  query by visitor and then to the create.
\<close>

definition ensureSession ::
  "chat_session \<Rightarrow> repository \<Rightarrow> string \<Rightarrow> string option \<Rightarrow> error + chat_session \<times> repository"
where
  "ensureSession defaults db visitorId requestedSessionId =
     (case (case requestedSessionId of
              None \<Rightarrow> None
            | Some rid \<Rightarrow>
                if rid = [] then None
                else (case chatSession_findUnique db rid of
                        None \<Rightarrow> None
                      | Some session \<Rightarrow>
                          if s_status session \<noteq> CLOSED then Some session else None)) of
        Some session \<Rightarrow> Inr (session, db)
      | None \<Rightarrow>
          (case chatSession_findFirst db visitorId of
             Some existing \<Rightarrow> Inr (existing, db)
           | None \<Rightarrow> chatSession_create defaults db visitorId ACTIVE))"

section \<open>Sockets and events\<close>

record SocketData =
  sessionId :: "string option"
  visitorId :: "string option"

text \<open>
  What the module reads and writes of a socket: its data, the rooms it joined, whether
  the transport is connected and whether \<^verbatim>\<open>registerSocketEvents\<close> has run on it.
\<close>

record socket =
  data :: SocketData
  rooms :: "string set"
  connected :: bool
  registered :: bool

record handshake =
  auth_visitorId :: "string option"
  query_visitorId :: "string option"
  auth_sessionId :: "string option"
  query_sessionId :: "string option"

record IncomingMessagePayload =
  msg_sessionId :: "string option"
  msg_content :: "js_string option"
  msg_metadata :: "string option"

record HeartbeatPayload =
  hb_sessionId :: "string option"

record EndSessionPayload =
  end_sessionId :: "string option"

datatype client_event =
    on_message IncomingMessagePayload
  | on_heartbeat HeartbeatPayload
  | on_endSession EndSessionPayload
  | on_end_chat EndSessionPayload

datatype server_event =
    session_ev string string chat_session_status
  | history_ev "ChatMessageDto list"
  | message_ev ChatMessageDto
  | status_ev chat_session_status
  | error_ev string
  | sessionClosed_ev string string

text \<open>
  \<^verbatim>\<open>socket.emit\<close> reaches the socket itself, \<^verbatim>\<open>io.to(room).emit\<close> every socket in
  the room.
\<close>

datatype emitted = to_socket server_event | to_room string server_event

text \<open>
  What the outside supplies while a handler runs: the identifier the generator behind
  \<^verbatim>\<open>uuid()\<close> draws, the value of \<^verbatim>\<open>new Date()\<close>, the default row of a session
  create, and the default rows of the first and second message create.
\<close>

record env =
  uuid :: string
  now :: nat
  session_defaults :: chat_session
  message_defaults1 :: chat_message
  message_defaults2 :: chat_message

text \<open>
  \<^verbatim>\<open>sendToN8n\<close> lives in \<^verbatim>\<open>n8nService\<close>, which is not among the sources: it is a
  parameter, a function from the request to the reply or to a failure (a rejected
  promise).
\<close>

record N8nHistoryEntry =
  h_sender :: message_role
  h_content :: js_string
  h_createdAt :: nat

record N8nRequest =
  r_sessionId :: string
  r_message :: js_string
  r_history :: "N8nHistoryEntry list"
  r_metadata :: "string option"

type_synonym n8n = "N8nRequest \<Rightarrow> error + js_string"

type_synonym outcome = "repository \<times> socket \<times> emitted list"

section \<open>The handlers\<close>

text \<open>
  \<^verbatim>\<open>if (!v) return a; ... v ...\<close> on an optional string: the early return when the
  value is \<^verbatim>\<open>undefined\<close> or empty, the rest of the handler otherwise.
\<close>

definition unless_falsy :: "'a list option \<Rightarrow> 'b \<Rightarrow> ('a list \<Rightarrow> 'b) \<Rightarrow> 'b" where
  "unless_falsy v a f = (case v of None \<Rightarrow> a | Some s \<Rightarrow> if s = [] then a else f s)"

subsection \<open>Attach\<close>

text \<open>
  The \<^verbatim>\<open>catch\<close> emits the error and disconnects; whatever the \<^verbatim>\<open>try\<close> did before
  the throw stays done.
\<close>

definition connection_failed :: "repository \<Rightarrow> socket \<Rightarrow> emitted list \<Rightarrow> outcome" where
  "connection_failed db sock out =
     (db, sock\<lparr>connected := False\<rparr>,
      out @ [to_socket (error_ev ''Unable to start chat session. Please refresh and try again.'')])"

text \<open>
  \<^verbatim>\<open>uuid()\<close> is version 4 of the \<^verbatim>\<open>uuid\<close> package, which is not among the sources.
  What the module takes from it is a universally unique identifier: one that is not
  empty and that no session of the repository carries as its visitor. The generator
  returns what it draws when that is so, and otherwise an identifier longer than every
  visitor identity of the repository.
\<close>

definition longest_visitor :: "repository \<Rightarrow> nat" where
  "longest_visitor db = foldr (\<lambda>s n. max (length (s_visitor_id s)) n) (sessions db) 0"

definition uuid_v4 :: "env \<Rightarrow> repository \<Rightarrow> string" where
  "uuid_v4 e db =
     (if uuid e = [] \<or> uuid e \<in> set (map s_visitor_id (sessions db))
      then replicate (Suc (longest_visitor db)) (CHR ''0'')
      else uuid e)"

text \<open>
  The visitor identity is the handshake's, from \<^verbatim>\<open>auth\<close> or else from the query, or
  else a generated one; the requested session id is the handshake's or \<^verbatim>\<open>undefined\<close>.
\<close>

definition handshake_visitorId :: "env \<Rightarrow> repository \<Rightarrow> handshake \<Rightarrow> string" where
  "handshake_visitorId e db hs =
     unless_falsy (js_or (auth_visitorId hs) (query_visitorId hs)) (uuid_v4 e db) (\<lambda>v. v)"

definition handshake_sessionId :: "handshake \<Rightarrow> string option" where
  "handshake_sessionId hs = js_or (auth_sessionId hs) (query_sessionId hs)"

definition handleConnection :: "env \<Rightarrow> repository \<Rightarrow> socket \<Rightarrow> handshake \<Rightarrow> outcome" where
  "handleConnection e db sock hs =
     (let vid = handshake_visitorId e db hs;
          requestedSessionId = handshake_sessionId hs
      in case ensureSession (session_defaults e) db vid requestedSessionId of
           Inl err \<Rightarrow> connection_failed db sock []
         | Inr (session, db1) \<Rightarrow>
             (let sock1 = sock\<lparr>data := (data sock)\<lparr>sessionId := Some (s_id session),
                                                    visitorId := Some vid\<rparr>,
                                rooms := insert (s_id session) (rooms sock),
                                registered := True\<rparr>;
                  history = getHistory db1 (s_id session) None;
                  out = to_socket (session_ev (s_id session) vid (s_status session))
                        # (if history \<noteq> [] then [to_socket (history_ev history)] else [])
              in case chatSession_update db1 (s_id session) (now e) ACTIVE of
                   Inl err \<Rightarrow> connection_failed db1 sock1 out
                 | Inr db2 \<Rightarrow> (db2, sock1, out)))"

subsection \<open>Inbound message\<close>

definition message_failed :: "repository \<Rightarrow> socket \<Rightarrow> emitted list \<Rightarrow> outcome" where
  "message_failed db sock out =
     (db, sock,
      out @ [to_socket (error_ev ''Unable to send message right now. Please try again.'')])"

text \<open>The request to n8n: the trimmed content, the first 50 messages, the metadata.\<close>

definition n8n_request ::
  "repository \<Rightarrow> string \<Rightarrow> js_string \<Rightarrow> IncomingMessagePayload \<Rightarrow> N8nRequest"
where
  "n8n_request db sid content payload =
     (let historyForBrain = getHistory db sid (Some 50)
      in \<lparr>r_sessionId = sid, r_message = content,
          r_history =
            map (\<lambda>m. \<lparr>h_sender = dto_sender m, h_content = dto_content m,
                       h_createdAt = dto_createdAt m\<rparr>)
                historyForBrain,
          r_metadata = msg_metadata payload\<rparr>)"

definition message_handler ::
  "n8n \<Rightarrow> env \<Rightarrow> repository \<Rightarrow> socket \<Rightarrow> IncomingMessagePayload \<Rightarrow> outcome"
where
  "message_handler sendToN8n e db sock payload =
     unless_falsy (nullish (msg_sessionId payload) (sessionId (data sock)))
       (db, sock, [to_socket (error_ev ''Session not established yet. Please wait.'')])
       (\<lambda>sid.
     unless_falsy (map_option trim (msg_content payload))
       (db, sock, [])
       (\<lambda>content.
     case chatSession_findUnique db sid of
       None \<Rightarrow>
         (db, sock,
          [to_socket (error_ev ''Session expired. Please refresh the page.''),
           to_socket (sessionClosed_ev sid ''Session not found. Starting new session...'')])
     | Some session \<Rightarrow>
         if s_status session = CLOSED
         then (db, sock,
               [to_socket (sessionClosed_ev sid ''Session was closed. Please start a new chat.'')])
         else
           (case chatMessage_create (message_defaults1 e) db sid USER content of
              Inl err \<Rightarrow> message_failed db sock []
            | Inr (userMessage, db1) \<Rightarrow>
                (let out = [to_room sid (message_ev (mapMessage userMessage))]
                 in case chatSession_update db1 sid (now e) ACTIVE of
                      Inl err \<Rightarrow> message_failed db1 sock out
                    | Inr db2 \<Rightarrow>
                        (case sendToN8n (n8n_request db2 sid content payload) of
                           Inl err \<Rightarrow> message_failed db2 sock out
                         | Inr aiReply \<Rightarrow>
                             (case chatMessage_create (message_defaults2 e) db2 sid BOT aiReply of
                                Inl err \<Rightarrow> message_failed db2 sock out
                              | Inr (aiMessage, db3) \<Rightarrow>
                                  (db3, sock,
                                   out @ [to_room sid (message_ev (mapMessage aiMessage))])))))))"

subsection \<open>Heartbeat\<close>

text \<open>A failed update is logged and nothing else.\<close>

definition heartbeat_handler :: "env \<Rightarrow> repository \<Rightarrow> socket \<Rightarrow> HeartbeatPayload \<Rightarrow> outcome" where
  "heartbeat_handler e db sock payload =
     unless_falsy (nullish (hb_sessionId payload) (sessionId (data sock)))
       (db, sock, [])
       (\<lambda>sid.
     case chatSession_update db sid (now e) ACTIVE of
       Inl err \<Rightarrow> (db, sock, [])
     | Inr db1 \<Rightarrow> (db1, sock, []))"

subsection \<open>End of session\<close>

definition end_failed :: "repository \<Rightarrow> socket \<Rightarrow> outcome" where
  "end_failed db sock =
     (db, sock, [to_socket (error_ev ''Failed to end session. Please try again.'')])"

definition handleEndSession :: "env \<Rightarrow> repository \<Rightarrow> socket \<Rightarrow> EndSessionPayload \<Rightarrow> outcome" where
  "handleEndSession e db sock payload =
     unless_falsy (nullish (end_sessionId payload) (sessionId (data sock)))
       (db, sock, [])
       (\<lambda>sid.
     case chatSession_update db sid (now e) CLOSED of
       Inl err \<Rightarrow> end_failed db sock
     | Inr db1 \<Rightarrow>
         (case chatMessage_create (message_defaults1 e) db1 sid SYSTEM
                 (utf16 ''Chat session ended by user.'') of
            Inl err \<Rightarrow> end_failed db1 sock
          | Inr (systemMessage, db2) \<Rightarrow>
              (db2,
               sock\<lparr>rooms := rooms sock - {sid}, data := (data sock)\<lparr>sessionId := None\<rparr>\<rparr>,
               [to_socket
                  (sessionClosed_ev sid
                     ''Session ended successfully. You can start a new conversation.'')])))"

subsection \<open>Dispatch\<close>

text \<open>
  \<^verbatim>\<open>registerSocketEvents\<close> installs one listener per event name; a socket without
  listeners, or one that is disconnected, handles nothing.
\<close>

definition socket_on :: "n8n \<Rightarrow> env \<Rightarrow> repository \<Rightarrow> socket \<Rightarrow> client_event \<Rightarrow> outcome" where
  "socket_on sendToN8n e db sock ev =
     (if registered sock \<and> connected sock
      then (case ev of
              on_message payload \<Rightarrow> message_handler sendToN8n e db sock payload
            | on_heartbeat payload \<Rightarrow> heartbeat_handler e db sock payload
            | on_endSession payload \<Rightarrow> handleEndSession e db sock payload
            | on_end_chat payload \<Rightarrow> handleEndSession e db sock payload)
      else (db, sock, []))"

section \<open>Runs\<close>

text \<open>
  One handler runs at a time. A step is an attach or an event, on some socket and with
  what the outside supplies to it; a run threads the repository through the steps.
\<close>

datatype step = attach env socket handshake | event env socket client_event

fun run_step :: "n8n \<Rightarrow> repository \<Rightarrow> step \<Rightarrow> repository" where
  "run_step sendToN8n db (attach e sock hs) = fst (handleConnection e db sock hs)"
| "run_step sendToN8n db (event e sock ev) = fst (socket_on sendToN8n e db sock ev)"

definition run :: "n8n \<Rightarrow> repository \<Rightarrow> step list \<Rightarrow> repository" where
  "run sendToN8n db steps = foldl (run_step sendToN8n) db steps"

fun is_heartbeat :: "step \<Rightarrow> bool" where
  "is_heartbeat (event e sock (on_heartbeat payload)) = True"
| "is_heartbeat other = False"

section \<open>A small repository to run the handlers on\<close>

definition ex_session :: "string \<Rightarrow> string \<Rightarrow> chat_session_status \<Rightarrow> nat \<Rightarrow> chat_session" where
  "ex_session i v st t =
     \<lparr>s_id = i, s_visitor_id = v, s_status = st, s_created_at = t,
      s_last_active_at = t, s_metadata = None\<rparr>"

definition ex_message :: "string \<Rightarrow> string \<Rightarrow> message_role \<Rightarrow> string \<Rightarrow> nat \<Rightarrow> chat_message" where
  "ex_message i sid r c t =
     \<lparr>m_id = i, m_session_id = sid, m_role = r, m_content = utf16 c, m_created_at = t\<rparr>"

text \<open>
  Visitor v1 has an open and a closed session, visitor v2 two open ones; session s1
  holds one turn.
\<close>

definition ex_db :: repository where
  "ex_db =
     \<lparr>sessions =
        [ex_session ''s1'' ''v1'' ACTIVE 10, ex_session ''s2'' ''v1'' CLOSED 20,
         ex_session ''s3'' ''v2'' ACTIVE 30, ex_session ''s4'' ''v2'' ACTIVE 40],
      messages =
        [ex_message ''m1'' ''s1'' USER ''hi'' 11, ex_message ''m2'' ''s1'' BOT ''hello'' 12]\<rparr>"

definition ex_env :: env where
  "ex_env =
     \<lparr>uuid = ''u1'', now = 100,
      session_defaults = ex_session ''s9'' [] ACTIVE 99,
      message_defaults1 = ex_message ''m8'' [] USER [] 101,
      message_defaults2 = ex_message ''m9'' [] USER [] 103\<rparr>"

text \<open>A socket attached to session s1, and one whose binding was removed.\<close>

definition ex_socket :: socket where
  "ex_socket =
     \<lparr>data = \<lparr>sessionId = Some ''s1'', visitorId = Some ''v1''\<rparr>,
      rooms = {''s1''}, connected = True, registered = True\<rparr>"

definition ex_unbound :: socket where
  "ex_unbound =
     \<lparr>data = \<lparr>sessionId = None, visitorId = Some ''v1''\<rparr>,
      rooms = {}, connected = True, registered = True\<rparr>"

definition ex_fresh :: socket where
  "ex_fresh =
     \<lparr>data = \<lparr>sessionId = None, visitorId = None\<rparr>,
      rooms = {}, connected = True, registered = False\<rparr>"

text \<open>Session s1 after a hundred messages, the oldest first.\<close>

definition ex_long :: repository where
  "ex_long =
     \<lparr>sessions = [ex_session ''s1'' ''v1'' ACTIVE 0],
      messages =
        map (\<lambda>i. ex_message (replicate (Suc i) (CHR ''a'')) ''s1'' USER ''x'' (Suc i)) [0..<100]\<rparr>"

definition ex_payload :: "string option \<Rightarrow> string \<Rightarrow> IncomingMessagePayload" where
  "ex_payload sid c = \<lparr>msg_sessionId = sid, msg_content = Some (utf16 c), msg_metadata = None\<rparr>"

text \<open>
  A handshake that names no visitor and asks for the open session s3, one that names
  no visitor and asks for the closed session s2, and visitor v1 asking for session s1.
\<close>

definition ex_anonymous :: handshake where
  "ex_anonymous =
     \<lparr>auth_visitorId = None, query_visitorId = None,
      auth_sessionId = None, query_sessionId = Some ''s3''\<rparr>"

definition ex_nameless :: handshake where
  "ex_nameless =
     \<lparr>auth_visitorId = None, query_visitorId = Some [],
      auth_sessionId = None, query_sessionId = Some ''s2''\<rparr>"

definition ex_returning :: handshake where
  "ex_returning =
     \<lparr>auth_visitorId = Some ''v1'', query_visitorId = None,
      auth_sessionId = Some ''s1'', query_sessionId = None\<rparr>"

definition n8n_ok :: n8n where
  "n8n_ok request = Inr (utf16 ''hello'')"

definition n8n_down :: n8n where
  "n8n_down request = Inl N8nFailure"

text \<open>
  Two tabs are attached to session s1. One ends the session; the other then sends its
  heartbeat.
\<close>

definition ex_ended :: repository where
  "ex_ended =
     fst (socket_on n8n_ok ex_env ex_db ex_socket (on_endSession \<lparr>end_sessionId = None\<rparr>))"

definition ex_revived :: repository where
  "ex_revived =
     fst (socket_on n8n_ok ex_env ex_ended ex_socket (on_heartbeat \<lparr>hb_sessionId = None\<rparr>))"

section \<open>Properties\<close>

lemmas ex_defs =
  ex_db_def ex_env_def ex_session_def ex_message_def ex_socket_def ex_unbound_def ex_fresh_def

subsection \<open>Session resolution\<close>

text \<open>
  The query by visitor finds nothing exactly when the visitor owns no session that is
  not CLOSED, and what it finds is such a session with the latest creation time.
\<close>

lemma findFirst_None:
  "chatSession_findFirst db v = None \<longleftrightarrow>
     filter (\<lambda>s. s_visitor_id s = v \<and> s_status s \<noteq> CLOSED) (sessions db) = []"
proof -
  let ?xs = "filter (\<lambda>s. s_visitor_id s = v \<and> s_status s \<noteq> CLOSED) (sessions db)"
  have "set (sort_key s_created_at ?xs) = {} \<longleftrightarrow> set ?xs = {}" by simp
  then have "rev (sort_key s_created_at ?xs) = [] \<longleftrightarrow> ?xs = []"
    unfolding set_empty by simp
  then show ?thesis
    unfolding chatSession_findFirst_def
    by (cases "rev (sort_key s_created_at ?xs)") simp_all
qed

lemma findFirst_Some:
  assumes "chatSession_findFirst db v = Some e"
  shows "e \<in> set (sessions db) \<and> s_visitor_id e = v \<and> s_status e \<noteq> CLOSED
         \<and> (\<forall>t\<in>set (sessions db). s_visitor_id t = v \<and> s_status t \<noteq> CLOSED
               \<longrightarrow> s_created_at t \<le> s_created_at e)"
proof -
  let ?xs = "filter (\<lambda>s. s_visitor_id s = v \<and> s_status s \<noteq> CLOSED) (sessions db)"
  from assms obtain rest where r: "rev (sort_key s_created_at ?xs) = e # rest"
    by (auto simp: chatSession_findFirst_def split: list.splits)
  then have s: "sort_key s_created_at ?xs = rev rest @ [e]"
    by (simp add: rev_swap [symmetric])
  have mem: "set (rev rest @ [e]) = set ?xs"
    using s set_sort [of s_created_at ?xs] by simp
  have "sorted (map s_created_at (rev rest @ [e]))"
    using s sorted_sort_key [of s_created_at ?xs] by simp
  then have le: "\<forall>t\<in>set (rev rest @ [e]). s_created_at t \<le> s_created_at e"
    by (auto simp: sorted_append)
  have "e \<in> set ?xs" using mem by auto
  moreover have "\<forall>t\<in>set ?xs. s_created_at t \<le> s_created_at e"
    using le unfolding mem by blast
  ultimately show ?thesis by simp
qed

text \<open>
  C2. Resolution is first match wins. A requested id that is given (not empty), exists
  and is not CLOSED is returned with the repository unchanged. When no such session is
  requested (no id, an unknown id, or a CLOSED session), the visitor's most recently
  created session that is not CLOSED is returned, again with the repository unchanged,
  if there is one; otherwise a session owned by the visitor with status ACTIVE is
  created and returned, the only write, or the create fails and nothing is written.
\<close>

theorem ensureSession_first_match:
  "(rid = Some r \<and> r \<noteq> [] \<and> chatSession_findUnique db r = Some s \<and> s_status s \<noteq> CLOSED
      \<longrightarrow> ensureSession d db v rid = Inr (s, db))
   \<and> ((\<forall>r. rid = Some r \<and> r \<noteq> []
            \<longrightarrow> (case chatSession_findUnique db r of None \<Rightarrow> True | Some s \<Rightarrow> s_status s = CLOSED))
      \<longrightarrow> (if \<exists>t\<in>set (sessions db). s_visitor_id t = v \<and> s_status t \<noteq> CLOSED
           then \<exists>e. ensureSession d db v rid = Inr (e, db)
                  \<and> e \<in> set (sessions db) \<and> s_visitor_id e = v \<and> s_status e \<noteq> CLOSED
                  \<and> (\<forall>t\<in>set (sessions db). s_visitor_id t = v \<and> s_status t \<noteq> CLOSED
                        \<longrightarrow> s_created_at t \<le> s_created_at e)
           else ensureSession d db v rid =
                  (if chatSession_findUnique db (s_id d) = None
                   then Inr (d\<lparr>s_visitor_id := v, s_status := ACTIVE\<rparr>,
                             db\<lparr>sessions := sessions db @ [d\<lparr>s_visitor_id := v, s_status := ACTIVE\<rparr>]\<rparr>)
                   else Inl UniqueConstraint)))"
proof (intro conjI impI)
  assume "rid = Some r \<and> r \<noteq> [] \<and> chatSession_findUnique db r = Some s \<and> s_status s \<noteq> CLOSED"
  then show "ensureSession d db v rid = Inr (s, db)"
    by (simp add: ensureSession_def)
next
  assume h: "\<forall>r. rid = Some r \<and> r \<noteq> []
            \<longrightarrow> (case chatSession_findUnique db r of None \<Rightarrow> True | Some s \<Rightarrow> s_status s = CLOSED)"
  have fall: "ensureSession d db v rid =
          (case chatSession_findFirst db v of
             Some existing \<Rightarrow> Inr (existing, db)
           | None \<Rightarrow> chatSession_create d db v ACTIVE)"
  proof (cases rid)
    case None
    then show ?thesis by (simp add: ensureSession_def)
  next
    case (Some r)
    show ?thesis
    proof (cases "r = []")
      case True
      then show ?thesis using Some by (simp add: ensureSession_def)
    next
      case False
      with h Some
      have "case chatSession_findUnique db r of None \<Rightarrow> True | Some s \<Rightarrow> s_status s = CLOSED"
        by blast
      then show ?thesis using Some False
        by (simp add: ensureSession_def split: option.splits)
    qed
  qed
  show "if \<exists>t\<in>set (sessions db). s_visitor_id t = v \<and> s_status t \<noteq> CLOSED
           then \<exists>e. ensureSession d db v rid = Inr (e, db)
                  \<and> e \<in> set (sessions db) \<and> s_visitor_id e = v \<and> s_status e \<noteq> CLOSED
                  \<and> (\<forall>t\<in>set (sessions db). s_visitor_id t = v \<and> s_status t \<noteq> CLOSED
                        \<longrightarrow> s_created_at t \<le> s_created_at e)
           else ensureSession d db v rid =
                  (if chatSession_findUnique db (s_id d) = None
                   then Inr (d\<lparr>s_visitor_id := v, s_status := ACTIVE\<rparr>,
                             db\<lparr>sessions := sessions db @ [d\<lparr>s_visitor_id := v, s_status := ACTIVE\<rparr>]\<rparr>)
                   else Inl UniqueConstraint)"
  proof (cases "chatSession_findFirst db v")
    case None
    then have neg: "\<not> (\<exists>t\<in>set (sessions db). s_visitor_id t = v \<and> s_status t \<noteq> CLOSED)"
      unfolding findFirst_None filter_empty_conv by blast
    have "ensureSession d db v rid =
                  (if chatSession_findUnique db (s_id d) = None
                   then Inr (d\<lparr>s_visitor_id := v, s_status := ACTIVE\<rparr>,
                             db\<lparr>sessions := sessions db @ [d\<lparr>s_visitor_id := v, s_status := ACTIVE\<rparr>]\<rparr>)
                   else Inl UniqueConstraint)"
      unfolding fall None by (simp add: chatSession_create_def Let_def)
    then show ?thesis
      by (simp only: if_not_P [OF neg])
  next
    case (Some e)
    from findFirst_Some [OF Some] have p: "e \<in> set (sessions db) \<and> s_visitor_id e = v \<and> s_status e \<noteq> CLOSED
         \<and> (\<forall>t\<in>set (sessions db). s_visitor_id t = v \<and> s_status t \<noteq> CLOSED
               \<longrightarrow> s_created_at t \<le> s_created_at e)" .
    then have c: "\<exists>t\<in>set (sessions db). s_visitor_id t = v \<and> s_status t \<noteq> CLOSED" by blast
    have r: "ensureSession d db v rid = Inr (e, db)" unfolding fall Some by simp
    show ?thesis
      unfolding if_P [OF c] using r p by (intro exI [of _ e]) (rule conjI)
  qed
qed

text \<open>
  On the example repository: a stranger asking for the open session s1 gets s1; visitor
  v2 asking for the closed session s2 gets their latest open session; a visitor without
  sessions gets a new one.
\<close>

theorem ensureSession_first_match_witness:
  "ensureSession (session_defaults ex_env) ex_db ''v9'' (Some ''s1'')
     = Inr (ex_session ''s1'' ''v1'' ACTIVE 10, ex_db)
   \<and> (\<exists>e. ensureSession (session_defaults ex_env) ex_db ''v2'' (Some ''s2'') = Inr (e, ex_db)
          \<and> s_visitor_id e = ''v2'' \<and> 40 \<le> s_created_at e)
   \<and> ensureSession (session_defaults ex_env) ex_db ''v3'' None
     = Inr (ex_session ''s9'' ''v3'' ACTIVE 99,
            ex_db\<lparr>sessions := sessions ex_db @ [ex_session ''s9'' ''v3'' ACTIVE 99]\<rparr>)"
proof (intro conjI)
  show "ensureSession (session_defaults ex_env) ex_db ''v9'' (Some ''s1'')
     = Inr (ex_session ''s1'' ''v1'' ACTIVE 10, ex_db)"
    by (rule ensureSession_first_match [where r = "''s1''", THEN conjunct1, rule_format])
       (simp add: ex_defs chatSession_findUnique_def)
next
  have closed: "\<forall>r. Some ''s2'' = Some r \<and> r \<noteq> []
            \<longrightarrow> (case chatSession_findUnique ex_db r of None \<Rightarrow> True | Some s \<Rightarrow> s_status s = CLOSED)"
    by (simp add: ex_defs chatSession_findUnique_def)
  have "\<exists>t\<in>set (sessions ex_db). s_visitor_id t = ''v2'' \<and> s_status t \<noteq> CLOSED"
    by (simp add: ex_defs)
  with ensureSession_first_match [where rid = "Some ''s2''" and db = ex_db and v = "''v2''"
         and d = "session_defaults ex_env", THEN conjunct2, THEN mp, OF closed]
  obtain e where e: "ensureSession (session_defaults ex_env) ex_db ''v2'' (Some ''s2'') = Inr (e, ex_db)"
      "s_visitor_id e = ''v2''"
      "\<forall>t\<in>set (sessions ex_db). s_visitor_id t = ''v2'' \<and> s_status t \<noteq> CLOSED
           \<longrightarrow> s_created_at t \<le> s_created_at e"
    by (simp only: if_True) blast
  from e(3) have "40 \<le> s_created_at e" by (simp add: ex_defs)
  with e show "\<exists>e. ensureSession (session_defaults ex_env) ex_db ''v2'' (Some ''s2'') = Inr (e, ex_db)
          \<and> s_visitor_id e = ''v2'' \<and> 40 \<le> s_created_at e" by blast
next
  have absent: "\<forall>r. None = Some r \<and> r \<noteq> []
            \<longrightarrow> (case chatSession_findUnique ex_db r of None \<Rightarrow> True | Some s \<Rightarrow> s_status s = CLOSED)"
    by simp
  have none: "\<not> (\<exists>t\<in>set (sessions ex_db). s_visitor_id t = ''v3'' \<and> s_status t \<noteq> CLOSED)"
    by (simp add: ex_defs)
  show "ensureSession (session_defaults ex_env) ex_db ''v3'' None
     = Inr (ex_session ''s9'' ''v3'' ACTIVE 99,
            ex_db\<lparr>sessions := sessions ex_db @ [ex_session ''s9'' ''v3'' ACTIVE 99]\<rparr>)"
    using ensureSession_first_match [where rid = None and db = ex_db and v = "''v3''"
         and d = "session_defaults ex_env", THEN conjunct2, THEN mp, OF absent]
    unfolding if_not_P [OF none]
    by (simp add: ex_defs chatSession_findUnique_def)
qed

subsection \<open>Inbound message: the early returns\<close>

lemma unless_falsy_None: "unless_falsy None a f = a"
  by (simp add: unless_falsy_def)

lemma unless_falsy_Some: "unless_falsy (Some s) a f = (if s = [] then a else f s)"
  by (simp add: unless_falsy_def)

lemma unless_falsy_truthy: "unless_falsy v a f = (if truthy v then f (the v) else a)"
  by (cases v) (simp_all add: unless_falsy_def truthy_def)

text \<open>
  C5. A message event without a session id, on a socket without a bound one, gets the
  error \<^verbatim>\<open>Session not established yet\<close> and nothing else: the repository and the
  socket are as before, one error event goes to the caller.
\<close>

theorem message_unbound:
  "msg_sessionId payload = None \<Longrightarrow> sessionId (data sock) = None \<Longrightarrow>
   message_handler sendToN8n e db sock payload =
     (db, sock, [to_socket (error_ev ''Session not established yet. Please wait.'')])"
  by (simp add: message_handler_def nullish_def unless_falsy_None)

theorem message_unbound_witness:
  "msg_sessionId \<lparr>msg_sessionId = None, msg_content = Some (utf16 ''hi''), msg_metadata = None\<rparr> = None
   \<and> sessionId (data ex_unbound) = None
   \<and> message_handler n8n_ok ex_env ex_db ex_unbound
        \<lparr>msg_sessionId = None, msg_content = Some (utf16 ''hi''), msg_metadata = None\<rparr>
      = (ex_db, ex_unbound, [to_socket (error_ev ''Session not established yet. Please wait.'')])"
  using message_unbound [of "\<lparr>msg_sessionId = None, msg_content = Some (utf16 ''hi''), msg_metadata = None\<rparr>"
          ex_unbound n8n_ok ex_env ex_db]
  by (simp add: ex_unbound_def)

text \<open>
  C4. With a session id to work on, content that is absent or trims to the empty string
  ends the handler at once: nothing is emitted, nothing is written, the socket is as
  before.
\<close>

theorem message_empty_content:
  "truthy (nullish (msg_sessionId payload) (sessionId (data sock))) \<Longrightarrow>
   (case msg_content payload of None \<Rightarrow> True | Some c \<Rightarrow> trim c = []) \<Longrightarrow>
   message_handler sendToN8n e db sock payload = (db, sock, [])"
  by (cases "msg_content payload")
     (simp_all add: message_handler_def unless_falsy_truthy [of "nullish _ _"]
        unless_falsy_None unless_falsy_Some)

text \<open>
  Blank content made of a space, a tab, an ideographic space and a line feed, and a
  payload without content.
\<close>

theorem message_empty_content_witness:
  "truthy (nullish (Some ''s1'') (sessionId (data ex_socket)))
   \<and> trim [0x20, 0x09, 0x3000, 0x0A] = []
   \<and> message_handler n8n_ok ex_env ex_db ex_socket
        \<lparr>msg_sessionId = Some ''s1'', msg_content = Some [0x20, 0x09, 0x3000, 0x0A],
         msg_metadata = None\<rparr> = (ex_db, ex_socket, [])
   \<and> message_handler n8n_ok ex_env ex_db ex_socket
        \<lparr>msg_sessionId = None, msg_content = None, msg_metadata = None\<rparr> = (ex_db, ex_socket, [])"
  using message_empty_content [of "\<lparr>msg_sessionId = Some ''s1'',
            msg_content = Some [0x20, 0x09, 0x3000, 0x0A], msg_metadata = None\<rparr>"
          ex_socket n8n_ok ex_env ex_db]
        message_empty_content [of "\<lparr>msg_sessionId = None, msg_content = None, msg_metadata = None\<rparr>"
          ex_socket n8n_ok ex_env ex_db]
  by (simp add: ex_socket_def truthy_def nullish_def trim_def is_white_space_def)

text \<open>
  C3. With a session id and content that is not blank: when no session has that id, the
  caller gets the error \<^verbatim>\<open>Session expired\<close> and then a \<^verbatim>\<open>sessionClosed\<close>
  notice; when the session is CLOSED, the caller gets the \<^verbatim>\<open>sessionClosed\<close> notice
  alone. In both cases nothing is written and the socket is as before.
\<close>

theorem message_session_gone_or_closed:
  assumes "nullish (msg_sessionId payload) (sessionId (data sock)) = Some sid" and "sid \<noteq> []"
      and "msg_content payload = Some c" and "trim c \<noteq> []"
  shows "(chatSession_findUnique db sid = None \<longrightarrow>
            message_handler sendToN8n e db sock payload =
              (db, sock,
               [to_socket (error_ev ''Session expired. Please refresh the page.''),
                to_socket (sessionClosed_ev sid ''Session not found. Starting new session...'')]))
       \<and> (\<forall>s. chatSession_findUnique db sid = Some s \<and> s_status s = CLOSED \<longrightarrow>
            message_handler sendToN8n e db sock payload =
              (db, sock,
               [to_socket (sessionClosed_ev sid ''Session was closed. Please start a new chat.'')]))"
  using assms by (simp add: message_handler_def unless_falsy_Some)

theorem message_session_gone_or_closed_witness:
  "message_handler n8n_ok ex_env ex_db ex_socket
     \<lparr>msg_sessionId = Some ''zz'', msg_content = Some (utf16 '' hi ''), msg_metadata = None\<rparr>
     = (ex_db, ex_socket,
        [to_socket (error_ev ''Session expired. Please refresh the page.''),
         to_socket (sessionClosed_ev ''zz'' ''Session not found. Starting new session...'')])
   \<and> message_handler n8n_ok ex_env ex_db ex_socket
     \<lparr>msg_sessionId = Some ''s2'', msg_content = Some (utf16 '' hi ''), msg_metadata = None\<rparr>
     = (ex_db, ex_socket,
        [to_socket (sessionClosed_ev ''s2'' ''Session was closed. Please start a new chat.'')])"
proof -
  have t: "trim (utf16 '' hi '') \<noteq> []"
    by (simp add: utf16_def trim_def is_white_space_def)
  have gone: "chatSession_findUnique ex_db ''zz'' = None"
    by (simp add: chatSession_findUnique_def ex_defs)
  have closed: "chatSession_findUnique ex_db ''s2'' = Some (ex_session ''s2'' ''v1'' CLOSED 20)
                \<and> s_status (ex_session ''s2'' ''v1'' CLOSED 20) = CLOSED"
    by (simp add: chatSession_findUnique_def ex_defs)
  show ?thesis
    using message_session_gone_or_closed
            [where payload = "\<lparr>msg_sessionId = Some ''zz'', msg_content = Some (utf16 '' hi ''),
                               msg_metadata = None\<rparr>"
               and sock = ex_socket and sid = "''zz''" and c = "utf16 '' hi ''" and db = ex_db
               and sendToN8n = n8n_ok and e = ex_env, THEN conjunct1, THEN mp, OF _ _ _ t gone]
          message_session_gone_or_closed
            [where payload = "\<lparr>msg_sessionId = Some ''s2'', msg_content = Some (utf16 '' hi ''),
                               msg_metadata = None\<rparr>"
               and sock = ex_socket and sid = "''s2''" and c = "utf16 '' hi ''" and db = ex_db
               and sendToN8n = n8n_ok and e = ex_env, THEN conjunct2, THEN spec, THEN mp,
             OF _ _ _ t closed]
    by (simp add: nullish_def)
qed

subsection \<open>Inbound message: the oracle fails\<close>

text \<open>
  Sorting by a key keeps in last place a last element whose key none exceeds.
\<close>

lemma insort_key_snoc:
  "f a \<le> f x \<Longrightarrow> insort_key f a (ys @ [x]) = insort_key f a ys @ [x]"
  by (induction ys) simp_all

lemma foldr_insort_key_snoc:
  "\<forall>y\<in>set xs. f y \<le> f x \<Longrightarrow> foldr (insort_key f) xs [x] = foldr (insort_key f) xs [] @ [x]"
  by (induction xs) (simp_all add: insort_key_snoc)

lemma sort_key_snoc:
  "\<forall>y\<in>set xs. f y \<le> f x \<Longrightarrow> sort_key f (xs @ [x]) = sort_key f xs @ [x]"
  by (simp add: sort_key_def foldr_insort_key_snoc)

lemma chatMessage_create_Inr:
  "chatMessage_create d db sid r c = Inr (m, db1) \<Longrightarrow>
     m = d\<lparr>m_session_id := sid, m_role := r, m_content := c\<rparr>
     \<and> db1 = db\<lparr>messages := messages db @ [m]\<rparr>"
  by (auto simp: chatMessage_create_def Let_def split: if_splits)

lemma chatSession_update_Inr:
  "chatSession_update db i t st = Inr db1 \<Longrightarrow>
     messages db1 = messages db
     \<and> sessions db1 =
         map (\<lambda>s. if s_id s = i then s\<lparr>s_last_active_at := t, s_status := st\<rparr> else s) (sessions db)"
  by (auto simp: chatSession_update_def split: if_splits)

text \<open>
  A history load whose limit the session's messages do not exceed returns all of them.
\<close>

lemma getHistory_all:
  assumes "length (filter (\<lambda>m. m_session_id m = sid) (messages db))
             \<le> (case limit of None \<Rightarrow> 100 | Some l \<Rightarrow> l)"
  shows "set (getHistory db sid limit) = mapMessage ` {m \<in> set (messages db). m_session_id m = sid}"
proof -
  let ?ms = "filter (\<lambda>m. m_session_id m = sid) (messages db)"
  have "length (sort_key m_created_at ?ms) \<le> (case limit of None \<Rightarrow> 100 | Some l \<Rightarrow> l)"
    using assms by simp
  then have "chatMessage_findMany db sid (case limit of None \<Rightarrow> 100 | Some l \<Rightarrow> l)
               = sort_key m_created_at ?ms"
    unfolding chatMessage_findMany_def by (rule take_all)
  then show ?thesis
    by (simp add: getHistory_def)
qed

text \<open>
  C6, as the code has it. When the USER message is persisted, the session is touched and
  the call to n8n fails, the handler ends with the repository holding the USER message
  and no BOT message, the echo of the USER message sent to the room and one error event
  sent to the caller alone. The USER message is in a later history load whenever the
  session held fewer messages than the load's limit before it: the load returns the
  oldest messages up to its limit.
\<close>

theorem message_oracle_failure:
  assumes "nullish (msg_sessionId payload) (sessionId (data sock)) = Some sid" and "sid \<noteq> []"
      and "msg_content payload = Some c" and "trim c \<noteq> []"
      and "chatSession_findUnique db sid = Some s" and "s_status s \<noteq> CLOSED"
      and "chatMessage_create (message_defaults1 e) db sid USER (trim c) = Inr (userMessage, db1)"
      and "chatSession_update db1 sid (now e) ACTIVE = Inr db2"
      and "sendToN8n (n8n_request db2 sid (trim c) payload) = Inl err"
  shows "message_handler sendToN8n e db sock payload =
           (db2, sock,
            [to_room sid (message_ev (mapMessage userMessage)),
             to_socket (error_ev ''Unable to send message right now. Please try again.'')])
         \<and> messages db2 = messages db @ [userMessage]
         \<and> m_session_id userMessage = sid \<and> m_role userMessage = USER
         \<and> m_content userMessage = trim c
         \<and> (length (filter (\<lambda>m. m_session_id m = sid) (messages db))
               < (case limit of None \<Rightarrow> 100 | Some l \<Rightarrow> l)
             \<longrightarrow> mapMessage userMessage \<in> set (getHistory db2 sid limit))"
proof -
  note c = chatMessage_create_Inr [OF assms(7)]
  note u = chatSession_update_Inr [OF assms(8)]
  have run: "message_handler sendToN8n e db sock payload =
           (db2, sock,
            [to_room sid (message_ev (mapMessage userMessage)),
             to_socket (error_ev ''Unable to send message right now. Please try again.'')])"
    using assms by (simp add: message_handler_def unless_falsy_Some message_failed_def)
  have msgs: "messages db2 = messages db @ [userMessage]"
    using c u by simp
  have um: "m_session_id userMessage = sid \<and> m_role userMessage = USER
         \<and> m_content userMessage = trim c"
    using c by simp
  have hist: "mapMessage userMessage \<in> set (getHistory db2 sid limit)"
    if "length (filter (\<lambda>m. m_session_id m = sid) (messages db))
               < (case limit of None \<Rightarrow> 100 | Some l \<Rightarrow> l)"
  proof -
    have "length (filter (\<lambda>m. m_session_id m = sid) (messages db2))
               \<le> (case limit of None \<Rightarrow> 100 | Some l \<Rightarrow> l)"
      using that msgs um by simp
    from getHistory_all [OF this] show ?thesis
      using msgs um by simp
  qed
  show ?thesis using run msgs um hist by blast
qed

lemma trim_yo: "trim (utf16 '' yo '') = utf16 ''yo''"
  by (simp add: utf16_def trim_def is_white_space_def)

theorem message_oracle_failure_witness:
  "snd (message_handler n8n_down ex_env ex_db ex_socket (ex_payload None '' yo ''))
     = (ex_socket,
        [to_room ''s1'' (message_ev (mapMessage (ex_message ''m8'' ''s1'' USER ''yo'' 101))),
         to_socket (error_ev ''Unable to send message right now. Please try again.'')])
   \<and> messages (fst (message_handler n8n_down ex_env ex_db ex_socket (ex_payload None '' yo '')))
     = messages ex_db @ [ex_message ''m8'' ''s1'' USER ''yo'' 101]
   \<and> mapMessage (ex_message ''m8'' ''s1'' USER ''yo'' 101)
       \<in> set (getHistory (fst (message_handler n8n_down ex_env ex_db ex_socket
                                  (ex_payload None '' yo ''))) ''s1'' None)"
proof -
  let ?um = "ex_message ''m8'' ''s1'' USER ''yo'' 101"
  let ?db1 = "ex_db\<lparr>messages := messages ex_db @ [?um]\<rparr>"
  have sid: "nullish (msg_sessionId (ex_payload None '' yo '')) (sessionId (data ex_socket)) = Some ''s1''"
    by (simp add: nullish_def ex_payload_def ex_socket_def)
  have ne: "''s1'' \<noteq> []" by simp
  have c: "msg_content (ex_payload None '' yo '') = Some (utf16 '' yo '')"
    by (simp add: ex_payload_def)
  have t: "trim (utf16 '' yo '') \<noteq> []"
    unfolding trim_yo by (simp add: utf16_def)
  have s: "chatSession_findUnique ex_db ''s1'' = Some (ex_session ''s1'' ''v1'' ACTIVE 10)"
    by (simp add: chatSession_findUnique_def ex_defs)
  have o: "s_status (ex_session ''s1'' ''v1'' ACTIVE 10) \<noteq> CLOSED"
    by (simp add: ex_session_def)
  have cr: "chatMessage_create (message_defaults1 ex_env) ex_db ''s1'' USER (trim (utf16 '' yo ''))
              = Inr (?um, ?db1)"
    by (simp add: trim_yo chatMessage_create_def Let_def ex_defs)
  obtain db2 where up: "chatSession_update ?db1 ''s1'' (now ex_env) ACTIVE = Inr db2"
    by (simp add: chatSession_update_def chatSession_findUnique_def ex_defs)
  have down: "n8n_down (n8n_request db2 ''s1'' (trim (utf16 '' yo '')) (ex_payload None '' yo ''))
                = Inl N8nFailure"
    by (simp add: n8n_down_def)
  have few: "length (filter (\<lambda>m. m_session_id m = ''s1'') (messages ex_db))
               < (case None of None \<Rightarrow> 100 | Some l \<Rightarrow> l)"
    by (simp add: ex_defs)
  from message_oracle_failure [where sendToN8n = n8n_down and limit = None,
         OF sid ne c t s o cr up down] few
  show ?thesis by simp
qed

text \<open>
  The claim as stated fails on a session that already holds a hundred messages: the
  USER message is persisted, and the default history load, which returns the hundred
  oldest, does not contain it.
\<close>

lemma ex_long_ids: "m \<in> set (messages ex_long) \<Longrightarrow> m_id m \<noteq> ''m8''"
  by (auto simp: ex_long_def ex_message_def)

lemma ex_long_session: "filter (\<lambda>m. m_session_id m = ''s1'') (messages ex_long) = messages ex_long"
  by (simp add: ex_long_def ex_message_def filter_map comp_def)

lemma ex_long_times: "\<forall>m\<in>set (messages ex_long). m_created_at m \<le> 101"
  by (auto simp: ex_long_def ex_message_def)

lemma ex_long_length: "length (messages ex_long) = 100"
  by (simp add: ex_long_def)

lemma ex_long_run:
  "fst (message_handler n8n_down ex_env ex_long ex_socket (ex_payload None '' yo ''))
     = \<lparr>sessions = [(ex_session ''s1'' ''v1'' ACTIVE 0)\<lparr>s_last_active_at := 100\<rparr>],
        messages = messages ex_long @ [ex_message ''m8'' ''s1'' USER ''yo'' 101]\<rparr>"
proof -
  have f: "find (\<lambda>m. m_id m = ''m8'') (messages ex_long) = None"
    using ex_long_ids by (auto simp: find_None_iff)
  have s: "sessions ex_long = [ex_session ''s1'' ''v1'' ACTIVE 0]"
    by (simp add: ex_long_def)
  have ne: "utf16 ''yo'' \<noteq> []"
    by (simp add: utf16_def)
  show ?thesis
    by (simp add: message_handler_def unless_falsy_Some nullish_def ex_payload_def trim_yo ne
          chatSession_findUnique_def chatMessage_create_def chatSession_update_def Let_def
          message_failed_def n8n_down_def f s
          ex_socket_def ex_env_def ex_session_def ex_message_def)
qed

theorem message_oracle_failure_counterexample:
  "messages (fst (message_handler n8n_down ex_env ex_long ex_socket (ex_payload None '' yo '')))
     = messages ex_long @ [ex_message ''m8'' ''s1'' USER ''yo'' 101]
   \<and> mapMessage (ex_message ''m8'' ''s1'' USER ''yo'' 101)
       \<notin> set (getHistory (fst (message_handler n8n_down ex_env ex_long ex_socket
                                  (ex_payload None '' yo ''))) ''s1'' None)"
proof -
  let ?um = "ex_message ''m8'' ''s1'' USER ''yo'' 101"
  let ?db = "fst (message_handler n8n_down ex_env ex_long ex_socket (ex_payload None '' yo ''))"
  have m: "messages ?db = messages ex_long @ [?um]"
    by (simp add: ex_long_run)
  have "filter (\<lambda>m. m_session_id m = ''s1'') (messages ?db) = messages ex_long @ [?um]"
    unfolding m by (simp add: ex_long_session) (simp add: ex_message_def)
  moreover have "sort_key m_created_at (messages ex_long @ [?um])
                   = sort_key m_created_at (messages ex_long) @ [?um]"
    using ex_long_times by (intro sort_key_snoc) (simp add: ex_message_def)
  ultimately have "chatMessage_findMany ?db ''s1'' 100 = sort_key m_created_at (messages ex_long)"
    by (simp add: chatMessage_findMany_def ex_long_length)
  then have "set (getHistory ?db ''s1'' None) = mapMessage ` set (messages ex_long)"
    by (simp add: getHistory_def)
  moreover have "mapMessage ?um \<notin> mapMessage ` set (messages ex_long)"
  proof
    assume "mapMessage ?um \<in> mapMessage ` set (messages ex_long)"
    then obtain m where "m \<in> set (messages ex_long)" and "mapMessage ?um = mapMessage m"
      by blast
    then have "m \<in> set (messages ex_long)" and "m_id m = ''m8''"
      by (simp_all add: mapMessage_def ex_message_def)
    then show False using ex_long_ids by blast
  qed
  ultimately show ?thesis using m by simp
qed

subsection \<open>History\<close>

lemma sorted_getHistory: "sorted (map dto_createdAt (getHistory db sid limit))"
proof -
  let ?ms = "filter (\<lambda>m. m_session_id m = sid) (messages db)"
  let ?n = "case limit of None \<Rightarrow> 100 | Some l \<Rightarrow> l"
  have "map dto_createdAt (getHistory db sid limit)
          = take ?n (map m_created_at (sort_key m_created_at ?ms))"
    by (simp add: getHistory_def chatMessage_findMany_def mapMessage_def comp_def take_map)
  moreover have "sorted (take ?n (map m_created_at (sort_key m_created_at ?ms)))"
    by (rule sorted_wrt_take) simp
  ultimately show ?thesis by simp
qed

lemma length_getHistory:
  "length (getHistory db sid limit) \<le> (case limit of None \<Rightarrow> 100 | Some l \<Rightarrow> l)"
  by (simp add: getHistory_def chatMessage_findMany_def)

lemma set_getHistory:
  "set (getHistory db sid limit) \<subseteq> mapMessage ` {m \<in> set (messages db). m_session_id m = sid}"
proof -
  have "set (chatMessage_findMany db sid n) \<subseteq> {m \<in> set (messages db). m_session_id m = sid}" for n
    unfolding chatMessage_findMany_def using set_take_subset [of n] by fastforce
  then show ?thesis
    unfolding getHistory_def by auto
qed

lemma attach_history_event:
  assumes "ensureSession (session_defaults e) db (handshake_visitorId e db hs) (handshake_sessionId hs)
             = Inr (session, db1)"
  shows "(getHistory db1 (s_id session) None \<noteq> []
            \<longrightarrow> to_socket (history_ev (getHistory db1 (s_id session) None))
                  \<in> set (snd (snd (handleConnection e db sock hs))))
         \<and> (\<forall>ms. to_socket (history_ev ms) \<in> set (snd (snd (handleConnection e db sock hs)))
                 \<longrightarrow> ms = getHistory db1 (s_id session) None)"
  using assms
  by (cases "chatSession_update db1 (s_id session) (now e) ACTIVE")
     (auto simp: handleConnection_def connection_failed_def Let_def)

lemma attach_history_bounded:
  "to_socket (history_ev ms) \<in> set (snd (snd (handleConnection e db sock hs))) \<Longrightarrow> length ms \<le> 100"
  using length_getHistory [of _ _ None]
  by (auto simp: handleConnection_def connection_failed_def Let_def
           split: sum.splits prod.splits if_splits)

text \<open>
  C7. A history load is ascending in creation time, has at most \<^verbatim>\<open>limit\<close> entries
  (100 when no limit is given), holds only messages of the session, holds all of them
  when they are no more than the limit, and is empty when the session has no message.
  The history sent to n8n is the load with limit 50, entry by entry, and so has at most
  50 entries. An attach that resolves a session emits the load of that session with the
  default limit as its history event when the load is not empty, and no other history
  event; the event has at most 100 entries. The load is a function of the repository
  and returns nothing but the messages: it writes nothing.
\<close>

theorem getHistory_ordered_bounded:
  "sorted (map dto_createdAt (getHistory db sid limit))
   \<and> length (getHistory db sid limit) \<le> (case limit of None \<Rightarrow> 100 | Some l \<Rightarrow> l)
   \<and> set (getHistory db sid limit) \<subseteq> mapMessage ` {m \<in> set (messages db). m_session_id m = sid}
   \<and> (length (filter (\<lambda>m. m_session_id m = sid) (messages db))
         \<le> (case limit of None \<Rightarrow> 100 | Some l \<Rightarrow> l)
       \<longrightarrow> set (getHistory db sid limit)
             = mapMessage ` {m \<in> set (messages db). m_session_id m = sid})
   \<and> ((\<forall>m\<in>set (messages db). m_session_id m \<noteq> sid) \<longrightarrow> getHistory db sid limit = [])
   \<and> (\<forall>ms. to_socket (history_ev ms) \<in> set (snd (snd (handleConnection e db sock hs)))
           \<longrightarrow> length ms \<le> 100)
   \<and> length (r_history (n8n_request db sid content payload)) \<le> 50
   \<and> r_history (n8n_request db sid content payload)
       = map (\<lambda>m. \<lparr>h_sender = dto_sender m, h_content = dto_content m,
                     h_createdAt = dto_createdAt m\<rparr>)
             (getHistory db sid (Some 50))
   \<and> (\<forall>session db1.
         ensureSession (session_defaults e) db (handshake_visitorId e db hs) (handshake_sessionId hs)
           = Inr (session, db1)
         \<longrightarrow> (getHistory db1 (s_id session) None \<noteq> []
                \<longrightarrow> to_socket (history_ev (getHistory db1 (s_id session) None))
                      \<in> set (snd (snd (handleConnection e db sock hs))))
             \<and> (\<forall>ms. to_socket (history_ev ms) \<in> set (snd (snd (handleConnection e db sock hs)))
                     \<longrightarrow> ms = getHistory db1 (s_id session) None))"
proof (intro conjI)
  show "sorted (map dto_createdAt (getHistory db sid limit))"
    by (rule sorted_getHistory)
  show "length (getHistory db sid limit) \<le> (case limit of None \<Rightarrow> 100 | Some l \<Rightarrow> l)"
    by (rule length_getHistory)
  show "set (getHistory db sid limit) \<subseteq> mapMessage ` {m \<in> set (messages db). m_session_id m = sid}"
    by (rule set_getHistory)
  show "length (filter (\<lambda>m. m_session_id m = sid) (messages db))
         \<le> (case limit of None \<Rightarrow> 100 | Some l \<Rightarrow> l)
       \<longrightarrow> set (getHistory db sid limit)
             = mapMessage ` {m \<in> set (messages db). m_session_id m = sid}"
    using getHistory_all by blast
  show "(\<forall>m\<in>set (messages db). m_session_id m \<noteq> sid) \<longrightarrow> getHistory db sid limit = []"
  proof
    assume "\<forall>m\<in>set (messages db). m_session_id m \<noteq> sid"
    then have "filter (\<lambda>m. m_session_id m = sid) (messages db) = []"
      by (simp add: filter_empty_conv)
    then show "getHistory db sid limit = []"
      by (simp add: getHistory_def chatMessage_findMany_def)
  qed
  show "\<forall>ms. to_socket (history_ev ms) \<in> set (snd (snd (handleConnection e db sock hs)))
           \<longrightarrow> length ms \<le> 100"
    using attach_history_bounded by blast
  show "length (r_history (n8n_request db sid content payload)) \<le> 50"
    using length_getHistory [of db sid "Some 50"] by (simp add: n8n_request_def)
  show "r_history (n8n_request db sid content payload)
       = map (\<lambda>m. \<lparr>h_sender = dto_sender m, h_content = dto_content m,
                     h_createdAt = dto_createdAt m\<rparr>)
             (getHistory db sid (Some 50))"
    by (simp add: n8n_request_def)
  show "\<forall>session db1.
         ensureSession (session_defaults e) db (handshake_visitorId e db hs) (handshake_sessionId hs)
           = Inr (session, db1)
         \<longrightarrow> (getHistory db1 (s_id session) None \<noteq> []
                \<longrightarrow> to_socket (history_ev (getHistory db1 (s_id session) None))
                      \<in> set (snd (snd (handleConnection e db sock hs))))
             \<and> (\<forall>ms. to_socket (history_ev ms) \<in> set (snd (snd (handleConnection e db sock hs)))
                     \<longrightarrow> ms = getHistory db1 (s_id session) None)"
    using attach_history_event by blast
qed

text \<open>
  On the example repository: the two messages of session s1 in order, the first of them
  under limit 1, none for session s3; the same two as context for n8n; and visitor v1
  attaching to s1 gets them as the history event.
\<close>

theorem getHistory_ordered_bounded_witness:
  "getHistory ex_db ''s1'' None
     = [mapMessage (ex_message ''m1'' ''s1'' USER ''hi'' 11),
        mapMessage (ex_message ''m2'' ''s1'' BOT ''hello'' 12)]
   \<and> getHistory ex_db ''s1'' (Some 1) = [mapMessage (ex_message ''m1'' ''s1'' USER ''hi'' 11)]
   \<and> getHistory ex_db ''s3'' None = []
   \<and> r_history (n8n_request ex_db ''s1'' (utf16 ''yo'') (ex_payload None ''yo''))
     = [\<lparr>h_sender = USER, h_content = utf16 ''hi'', h_createdAt = 11\<rparr>,
        \<lparr>h_sender = BOT, h_content = utf16 ''hello'', h_createdAt = 12\<rparr>]
   \<and> to_socket (history_ev [mapMessage (ex_message ''m1'' ''s1'' USER ''hi'' 11),
                             mapMessage (ex_message ''m2'' ''s1'' BOT ''hello'' 12)])
       \<in> set (snd (snd (handleConnection ex_env ex_db ex_fresh ex_returning)))"
proof -
  note t = getHistory_ordered_bounded
             [where db = ex_db and sid = "''s1''" and limit = None and e = ex_env
                and sock = ex_fresh and hs = ex_returning and content = "utf16 ''yo''"
                and payload = "ex_payload None ''yo''"]
  note context_eq = t [THEN conjunct2, THEN conjunct2, THEN conjunct2, THEN conjunct2,
                       THEN conjunct2, THEN conjunct2, THEN conjunct2, THEN conjunct1]
  note replay = t [THEN conjunct2, THEN conjunct2, THEN conjunct2, THEN conjunct2,
                   THEN conjunct2, THEN conjunct2, THEN conjunct2, THEN conjunct2]
  have all: "length (filter (\<lambda>m. m_session_id m = ''s1'') (messages ex_db))
               \<le> (case None of None \<Rightarrow> 100 | Some l \<Rightarrow> l)"
    by (simp add: ex_defs)
  have none: "\<forall>m\<in>set (messages ex_db). m_session_id m \<noteq> ''s3''"
    by (simp add: ex_defs)
  have 3: "getHistory ex_db ''s3'' None = []"
    using getHistory_ordered_bounded [of ex_db "''s3''" None] none by blast
  have "set (getHistory ex_db ''s1'' None)
                   = mapMessage ` {m \<in> set (messages ex_db). m_session_id m = ''s1''}"
    using t all by blast
  have 1: "getHistory ex_db ''s1'' None
     = [mapMessage (ex_message ''m1'' ''s1'' USER ''hi'' 11),
        mapMessage (ex_message ''m2'' ''s1'' BOT ''hello'' 12)]"
    by (simp add: getHistory_def chatMessage_findMany_def ex_defs)
  have 2: "getHistory ex_db ''s1'' (Some 1) = [mapMessage (ex_message ''m1'' ''s1'' USER ''hi'' 11)]"
    by (simp add: getHistory_def chatMessage_findMany_def ex_defs)
  have 4: "r_history (n8n_request ex_db ''s1'' (utf16 ''yo'') (ex_payload None ''yo''))
     = [\<lparr>h_sender = USER, h_content = utf16 ''hi'', h_createdAt = 11\<rparr>,
        \<lparr>h_sender = BOT, h_content = utf16 ''hello'', h_createdAt = 12\<rparr>]"
    unfolding context_eq
    by (simp add: getHistory_def chatMessage_findMany_def mapMessage_def ex_defs)
  have es: "ensureSession (session_defaults ex_env) ex_db
              (handshake_visitorId ex_env ex_db ex_returning) (handshake_sessionId ex_returning)
            = Inr (ex_session ''s1'' ''v1'' ACTIVE 10, ex_db)"
    by (simp add: ensureSession_def handshake_visitorId_def handshake_sessionId_def js_or_def
          truthy_def unless_falsy_def chatSession_findUnique_def ex_returning_def ex_defs)
  have id: "s_id (ex_session ''s1'' ''v1'' ACTIVE 10) = ''s1''"
    by (simp add: ex_session_def)
  have "getHistory ex_db ''s1'' None \<noteq> []
          \<longrightarrow> to_socket (history_ev (getHistory ex_db ''s1'' None))
                \<in> set (snd (snd (handleConnection ex_env ex_db ex_fresh ex_returning)))"
    using replay [THEN spec, THEN spec, THEN mp, OF es, THEN conjunct1] unfolding id .
  then have 5: "to_socket (history_ev [mapMessage (ex_message ''m1'' ''s1'' USER ''hi'' 11),
                             mapMessage (ex_message ''m2'' ''s1'' BOT ''hello'' 12)])
       \<in> set (snd (snd (handleConnection ex_env ex_db ex_fresh ex_returning)))"
    unfolding 1 by simp
  from 1 2 3 4 5 show ?thesis by simp
qed

subsection \<open>End of session\<close>

lemma findUnique_None_ids: "chatSession_findUnique db i = None \<Longrightarrow> \<forall>s\<in>set (sessions db). s_id s \<noteq> i"
  by (auto simp: chatSession_findUnique_def find_None_iff)

text \<open>
  C8. Both event names run \<^verbatim>\<open>handleEndSession\<close>, which never touches the transport.
  Without a session id to work on it does nothing. With one: if no session has the id,
  the caller gets an error and nothing changes; if the session is there, it is set to
  CLOSED with the current time as last activity, and then either the SYSTEM message is
  persisted, the caller gets \<^verbatim>\<open>sessionClosed\<close>, the socket leaves the room and
  loses its binding, or the message create fails, the caller gets an error and the
  socket keeps its binding.
\<close>

theorem end_session_unified:
  "socket_on sendToN8n e db sock (on_endSession payload)
     = socket_on sendToN8n e db sock (on_end_chat payload)
   \<and> (registered sock \<and> connected sock \<longrightarrow>
        socket_on sendToN8n e db sock (on_endSession payload) = handleEndSession e db sock payload)
   \<and> connected (fst (snd (handleEndSession e db sock payload))) = connected sock
   \<and> (\<not> truthy (nullish (end_sessionId payload) (sessionId (data sock))) \<longrightarrow>
        handleEndSession e db sock payload = (db, sock, []))
   \<and> (\<forall>sid. nullish (end_sessionId payload) (sessionId (data sock)) = Some sid \<and> sid \<noteq> [] \<longrightarrow>
        handleEndSession e db sock payload =
          (if chatSession_findUnique db sid = None
           then (db, sock, [to_socket (error_ev ''Failed to end session. Please try again.'')])
           else if find (\<lambda>m. m_id m = m_id (message_defaults1 e)) (messages db) \<noteq> None
           then (db\<lparr>sessions :=
                      map (\<lambda>s. if s_id s = sid
                                then s\<lparr>s_last_active_at := now e, s_status := CLOSED\<rparr> else s)
                          (sessions db)\<rparr>,
                 sock, [to_socket (error_ev ''Failed to end session. Please try again.'')])
           else (db\<lparr>sessions :=
                      map (\<lambda>s. if s_id s = sid
                                then s\<lparr>s_last_active_at := now e, s_status := CLOSED\<rparr> else s)
                          (sessions db),
                    messages :=
                      messages db
                      @ [(message_defaults1 e)
                           \<lparr>m_session_id := sid, m_role := SYSTEM,
                            m_content := utf16 ''Chat session ended by user.''\<rparr>]\<rparr>,
                 sock\<lparr>rooms := rooms sock - {sid}, data := (data sock)\<lparr>sessionId := None\<rparr>\<rparr>,
                 [to_socket
                    (sessionClosed_ev sid
                       ''Session ended successfully. You can start a new conversation.'')])))"
proof (intro conjI impI allI)
  show "socket_on sendToN8n e db sock (on_endSession payload)
     = socket_on sendToN8n e db sock (on_end_chat payload)"
    by (simp add: socket_on_def)
  show "socket_on sendToN8n e db sock (on_endSession payload) = handleEndSession e db sock payload"
    if "registered sock \<and> connected sock"
    using that by (simp add: socket_on_def)
  show "connected (fst (snd (handleEndSession e db sock payload))) = connected sock"
    by (simp add: handleEndSession_def unless_falsy_def end_failed_def
             split: option.splits sum.splits prod.splits)
  show "handleEndSession e db sock payload = (db, sock, [])"
    if "\<not> truthy (nullish (end_sessionId payload) (sessionId (data sock)))"
    using that by (simp add: handleEndSession_def unless_falsy_truthy)
next
  fix sid
  assume a: "nullish (end_sessionId payload) (sessionId (data sock)) = Some sid \<and> sid \<noteq> []"
  show "handleEndSession e db sock payload =
          (if chatSession_findUnique db sid = None
           then (db, sock, [to_socket (error_ev ''Failed to end session. Please try again.'')])
           else if find (\<lambda>m. m_id m = m_id (message_defaults1 e)) (messages db) \<noteq> None
           then (db\<lparr>sessions :=
                      map (\<lambda>s. if s_id s = sid
                                then s\<lparr>s_last_active_at := now e, s_status := CLOSED\<rparr> else s)
                          (sessions db)\<rparr>,
                 sock, [to_socket (error_ev ''Failed to end session. Please try again.'')])
           else (db\<lparr>sessions :=
                      map (\<lambda>s. if s_id s = sid
                                then s\<lparr>s_last_active_at := now e, s_status := CLOSED\<rparr> else s)
                          (sessions db),
                    messages :=
                      messages db
                      @ [(message_defaults1 e)
                           \<lparr>m_session_id := sid, m_role := SYSTEM,
                            m_content := utf16 ''Chat session ended by user.''\<rparr>]\<rparr>,
                 sock\<lparr>rooms := rooms sock - {sid}, data := (data sock)\<lparr>sessionId := None\<rparr>\<rparr>,
                 [to_socket
                    (sessionClosed_ev sid
                       ''Session ended successfully. You can start a new conversation.'')]))"
    using a
    by (simp add: handleEndSession_def unless_falsy_Some end_failed_def
          chatSession_update_def chatMessage_create_def Let_def)
qed

theorem end_session_unified_witness:
  "handleEndSession ex_env ex_db ex_unbound \<lparr>end_sessionId = None\<rparr> = (ex_db, ex_unbound, [])
   \<and> handleEndSession ex_env ex_db ex_socket \<lparr>end_sessionId = Some ''zz''\<rparr>
       = (ex_db, ex_socket, [to_socket (error_ev ''Failed to end session. Please try again.'')])
   \<and> socket_on n8n_ok ex_env ex_db ex_socket (on_end_chat \<lparr>end_sessionId = None\<rparr>)
       = (ex_db\<lparr>sessions :=
                  [(ex_session ''s1'' ''v1'' CLOSED 10)\<lparr>s_last_active_at := 100\<rparr>,
                   ex_session ''s2'' ''v1'' CLOSED 20, ex_session ''s3'' ''v2'' ACTIVE 30,
                   ex_session ''s4'' ''v2'' ACTIVE 40],
                messages :=
                  messages ex_db @ [ex_message ''m8'' ''s1'' SYSTEM ''Chat session ended by user.'' 101]\<rparr>,
          ex_socket\<lparr>rooms := {}, data := \<lparr>sessionId = None, visitorId = Some ''v1''\<rparr>\<rparr>,
          [to_socket
             (sessionClosed_ev ''s1''
                ''Session ended successfully. You can start a new conversation.'')])"
proof -
  let ?p = "\<lparr>end_sessionId = None\<rparr>"
  let ?q = "\<lparr>end_sessionId = Some ''zz''\<rparr>"
  note unbound = end_session_unified [of n8n_ok ex_env ex_db ex_unbound ?p]
  note gone = end_session_unified [of n8n_ok ex_env ex_db ex_socket ?q]
  note bound = end_session_unified [of n8n_ok ex_env ex_db ex_socket ?p]
  have "\<not> truthy (nullish (end_sessionId ?p) (sessionId (data ex_unbound)))"
    by (simp add: truthy_def nullish_def ex_unbound_def)
  then have 1: "handleEndSession ex_env ex_db ex_unbound ?p = (ex_db, ex_unbound, [])"
    by (rule unbound [THEN conjunct2, THEN conjunct2, THEN conjunct2, THEN conjunct1, THEN mp])
  have q: "nullish (end_sessionId ?q) (sessionId (data ex_socket)) = Some ''zz'' \<and> ''zz'' \<noteq> []"
    by (simp add: nullish_def)
  have 2: "handleEndSession ex_env ex_db ex_socket ?q
       = (ex_db, ex_socket, [to_socket (error_ev ''Failed to end session. Please try again.'')])"
    unfolding gone [THEN conjunct2, THEN conjunct2, THEN conjunct2, THEN conjunct2,
                    THEN spec, THEN mp, OF q]
    by (simp add: chatSession_findUnique_def ex_db_def ex_session_def)
  have p: "nullish (end_sessionId ?p) (sessionId (data ex_socket)) = Some ''s1'' \<and> ''s1'' \<noteq> []"
    by (simp add: nullish_def ex_socket_def)
  have on: "registered ex_socket \<and> connected ex_socket"
    by (simp add: ex_socket_def)
  have 3: "socket_on n8n_ok ex_env ex_db ex_socket (on_end_chat ?p)
       = (ex_db\<lparr>sessions :=
                  [(ex_session ''s1'' ''v1'' CLOSED 10)\<lparr>s_last_active_at := 100\<rparr>,
                   ex_session ''s2'' ''v1'' CLOSED 20, ex_session ''s3'' ''v2'' ACTIVE 30,
                   ex_session ''s4'' ''v2'' ACTIVE 40],
                messages :=
                  messages ex_db @ [ex_message ''m8'' ''s1'' SYSTEM ''Chat session ended by user.'' 101]\<rparr>,
          ex_socket\<lparr>rooms := {}, data := \<lparr>sessionId = None, visitorId = Some ''v1''\<rparr>\<rparr>,
          [to_socket
             (sessionClosed_ev ''s1''
                ''Session ended successfully. You can start a new conversation.'')])"
    unfolding bound [THEN conjunct1, symmetric]
      bound [THEN conjunct2, THEN conjunct1, THEN mp, OF on]
      bound [THEN conjunct2, THEN conjunct2, THEN conjunct2, THEN conjunct2,
             THEN spec, THEN mp, OF p]
    by (simp add: chatSession_findUnique_def ex_defs)
  from 1 2 3 show ?thesis by simp
qed

subsection \<open>Attach without a visitor identity\<close>

lemma update_absent:
  assumes "chatSession_findUnique db i = None"
  shows "map (\<lambda>s. if s_id s = i then f s else s) (sessions db) = sessions db"
  using findUnique_None_ids [OF assms] by (simp add: map_idI)

text \<open>The generated identity is fresh: no session of the repository has it as visitor.\<close>

lemma longest_visitor_bound:
  "t \<in> set xs \<Longrightarrow> length (s_visitor_id t) \<le> foldr (\<lambda>s n. max (length (s_visitor_id s)) n) xs 0"
  by (induction xs) auto

lemma uuid_v4_fresh: "t \<in> set (sessions db) \<Longrightarrow> s_visitor_id t \<noteq> uuid_v4 e db"
proof
  assume t: "t \<in> set (sessions db)" and eq: "s_visitor_id t = uuid_v4 e db"
  show False
  proof (cases "uuid e = [] \<or> uuid e \<in> set (map s_visitor_id (sessions db))")
    case True
    then have "length (uuid_v4 e db) = Suc (longest_visitor db)"
      by (simp add: uuid_v4_def)
    moreover have "length (s_visitor_id t) \<le> longest_visitor db"
      unfolding longest_visitor_def using t by (rule longest_visitor_bound)
    ultimately show False using eq by simp
  next
    case False
    then have "uuid_v4 e db = uuid e" and "uuid e \<notin> s_visitor_id ` set (sessions db)"
      by (simp_all add: uuid_v4_def)
    moreover have "s_visitor_id t \<in> s_visitor_id ` set (sessions db)"
      using t by (rule imageI)
    ultimately show False using eq by simp
  qed
qed

text \<open>
  C10, as the code has it. A handshake that names no visitor, in \<^verbatim>\<open>auth\<close> or in the
  query, is served under the generated identity, which no session of the repository
  has as visitor. When moreover the handshake asks for no session that exists and is
  not CLOSED, resolution comes to the create: if the create succeeds, the attach ends
  with a new session owned by the generated identity, status ACTIVE, and the socket
  bound to it; if the create throws, the attach fails as any attach does then.
\<close>

theorem attach_without_visitor:
  assumes "\<not> truthy (auth_visitorId hs)" and "\<not> truthy (query_visitorId hs)"
  shows "handshake_visitorId e db hs = uuid_v4 e db
    \<and> (\<forall>t\<in>set (sessions db). s_visitor_id t \<noteq> uuid_v4 e db)
    \<and> ((\<forall>r. handshake_sessionId hs = Some r \<and> r \<noteq> []
            \<longrightarrow> (case chatSession_findUnique db r of None \<Rightarrow> True | Some s \<Rightarrow> s_status s = CLOSED))
       \<longrightarrow> ensureSession (session_defaults e) db (handshake_visitorId e db hs) (handshake_sessionId hs)
             = chatSession_create (session_defaults e) db (uuid_v4 e db) ACTIVE
           \<and> handleConnection e db sock hs =
             (if chatSession_findUnique db (s_id (session_defaults e)) = None
              then (db\<lparr>sessions :=
                         sessions db
                         @ [(session_defaults e)\<lparr>s_visitor_id := uuid_v4 e db, s_status := ACTIVE,
                                                  s_last_active_at := now e\<rparr>]\<rparr>,
                    sock\<lparr>data := (data sock)\<lparr>sessionId := Some (s_id (session_defaults e)),
                                               visitorId := Some (uuid_v4 e db)\<rparr>,
                          rooms := insert (s_id (session_defaults e)) (rooms sock),
                          registered := True\<rparr>,
                    to_socket (session_ev (s_id (session_defaults e)) (uuid_v4 e db) ACTIVE)
                    # (if getHistory db (s_id (session_defaults e)) None \<noteq> []
                       then [to_socket
                               (history_ev (getHistory db (s_id (session_defaults e)) None))]
                       else []))
              else connection_failed db sock []))"
proof (intro conjI impI)
  show v: "handshake_visitorId e db hs = uuid_v4 e db"
    using assms by (simp add: handshake_visitorId_def js_or_def unless_falsy_truthy)
  show fresh: "\<forall>t\<in>set (sessions db). s_visitor_id t \<noteq> uuid_v4 e db"
    using uuid_v4_fresh by blast
  assume h: "\<forall>r. handshake_sessionId hs = Some r \<and> r \<noteq> []
            \<longrightarrow> (case chatSession_findUnique db r of None \<Rightarrow> True | Some s \<Rightarrow> s_status s = CLOSED)"
  let ?d = "session_defaults e"
  let ?u = "uuid_v4 e db"
  let ?row = "?d\<lparr>s_visitor_id := ?u, s_status := ACTIVE\<rparr>"
  let ?db1 = "db\<lparr>sessions := sessions db @ [?row]\<rparr>"
  have ff: "chatSession_findFirst db ?u = None"
    unfolding findFirst_None filter_empty_conv using fresh by blast
  have reuse: "(case handshake_sessionId hs of
              None \<Rightarrow> None
            | Some rid \<Rightarrow>
                if rid = [] then None
                else (case chatSession_findUnique db rid of
                        None \<Rightarrow> None
                      | Some session \<Rightarrow>
                          if s_status session \<noteq> CLOSED then Some session else None)) = None"
  proof (cases "handshake_sessionId hs")
    case None
    then show ?thesis by simp
  next
    case (Some r)
    show ?thesis
    proof (cases "r = []")
      case True
      then show ?thesis using Some by simp
    next
      case False
      with h Some
      have "case chatSession_findUnique db r of None \<Rightarrow> True | Some s \<Rightarrow> s_status s = CLOSED"
        by blast
      then show ?thesis using Some False by (cases "chatSession_findUnique db r") simp_all
    qed
  qed
  have es: "ensureSession ?d db ?u (handshake_sessionId hs) = chatSession_create ?d db ?u ACTIVE"
    by (simp add: ensureSession_def reuse ff)
  then show "ensureSession ?d db (handshake_visitorId e db hs) (handshake_sessionId hs)
               = chatSession_create ?d db ?u ACTIVE"
    unfolding v .
  show "handleConnection e db sock hs =
             (if chatSession_findUnique db (s_id (session_defaults e)) = None
              then (db\<lparr>sessions :=
                         sessions db
                         @ [(session_defaults e)\<lparr>s_visitor_id := uuid_v4 e db, s_status := ACTIVE,
                                                  s_last_active_at := now e\<rparr>]\<rparr>,
                    sock\<lparr>data := (data sock)\<lparr>sessionId := Some (s_id (session_defaults e)),
                                               visitorId := Some (uuid_v4 e db)\<rparr>,
                          rooms := insert (s_id (session_defaults e)) (rooms sock),
                          registered := True\<rparr>,
                    to_socket (session_ev (s_id (session_defaults e)) (uuid_v4 e db) ACTIVE)
                    # (if getHistory db (s_id (session_defaults e)) None \<noteq> []
                       then [to_socket
                               (history_ev (getHistory db (s_id (session_defaults e)) None))]
                       else []))
              else connection_failed db sock [])"
  proof (cases "chatSession_findUnique db (s_id ?d) = None")
    case False
    then have "ensureSession ?d db ?u (handshake_sessionId hs) = Inl UniqueConstraint"
      unfolding es by (simp add: chatSession_create_def Let_def)
    then have "handleConnection e db sock hs = connection_failed db sock []"
      unfolding handleConnection_def Let_def v by simp
    then show ?thesis
      unfolding if_not_P [OF False] .
  next
    case True
    have cr: "ensureSession ?d db ?u (handshake_sessionId hs) = Inr (?row, ?db1)"
      unfolding es using True by (simp add: chatSession_create_def Let_def)
    have fu: "chatSession_findUnique ?db1 (s_id ?d) \<noteq> None"
      unfolding chatSession_findUnique_def find_None_iff
      by (simp, intro exI [of _ "?row"]) simp
    have up: "chatSession_update ?db1 (s_id ?d) (now e) ACTIVE =
            Inr (db\<lparr>sessions := sessions db @ [?d\<lparr>s_visitor_id := ?u, s_status := ACTIVE,
                                                    s_last_active_at := now e\<rparr>]\<rparr>)"
      using fu True by (simp add: chatSession_update_def update_absent)
    have hist: "getHistory ?db1 (s_id ?d) None = getHistory db (s_id ?d) None"
      by (simp add: getHistory_def chatMessage_findMany_def)
    show ?thesis
      unfolding handleConnection_def Let_def v cr if_P [OF True]
      by (simp add: up hist)
  qed
qed

text \<open>
  On the example repository, a handshake that names no visitor and asks for the closed
  session s2: the draw u1 is fresh, and the socket is bound to the new session s9.
\<close>

theorem attach_without_visitor_witness:
  "handshake_visitorId ex_env ex_db ex_nameless = ''u1''
   \<and> handleConnection ex_env ex_db ex_fresh ex_nameless =
       (ex_db\<lparr>sessions :=
                 sessions ex_db @ [(ex_session ''s9'' ''u1'' ACTIVE 99)\<lparr>s_last_active_at := 100\<rparr>]\<rparr>,
        ex_fresh\<lparr>data := \<lparr>sessionId = Some ''s9'', visitorId = Some ''u1''\<rparr>,
                  rooms := {''s9''}, registered := True\<rparr>,
        [to_socket (session_ev ''s9'' ''u1'' ACTIVE)])"
proof -
  have a: "\<not> truthy (auth_visitorId ex_nameless)" and q: "\<not> truthy (query_visitorId ex_nameless)"
    by (simp_all add: truthy_def ex_nameless_def)
  note t = attach_without_visitor [OF a q, of ex_env ex_db ex_fresh]
  have h: "\<forall>r. handshake_sessionId ex_nameless = Some r \<and> r \<noteq> []
            \<longrightarrow> (case chatSession_findUnique ex_db r of None \<Rightarrow> True | Some s \<Rightarrow> s_status s = CLOSED)"
    by (simp add: handshake_sessionId_def js_or_def truthy_def ex_nameless_def
          chatSession_findUnique_def ex_defs)
  have u: "uuid_v4 ex_env ex_db = ''u1''"
    by (simp add: uuid_v4_def ex_defs)
  have free: "chatSession_findUnique ex_db (s_id (session_defaults ex_env)) = None"
    by (simp add: chatSession_findUnique_def ex_defs)
  have 1: "handshake_visitorId ex_env ex_db ex_nameless = ''u1''"
    using t [THEN conjunct1] by (simp add: u)
  have 2: "handleConnection ex_env ex_db ex_fresh ex_nameless =
       (ex_db\<lparr>sessions :=
                 sessions ex_db @ [(ex_session ''s9'' ''u1'' ACTIVE 99)\<lparr>s_last_active_at := 100\<rparr>]\<rparr>,
        ex_fresh\<lparr>data := \<lparr>sessionId = Some ''s9'', visitorId = Some ''u1''\<rparr>,
                  rooms := {''s9''}, registered := True\<rparr>,
        [to_socket (session_ev ''s9'' ''u1'' ACTIVE)])"
    unfolding t [THEN conjunct2, THEN conjunct2, THEN mp, OF h, THEN conjunct2] if_P [OF free] u
    by (simp add: getHistory_def chatMessage_findMany_def ex_defs)
  from 1 2 show ?thesis by simp
qed

text \<open>
  The claim as stated fails when the handshake asks for a session that is not CLOSED:
  the socket is bound to that session and no session is created.
\<close>

theorem attach_without_visitor_counterexample:
  "\<not> truthy (auth_visitorId ex_anonymous) \<and> \<not> truthy (query_visitorId ex_anonymous)
   \<and> sessionId (data (fst (snd (handleConnection ex_env ex_db ex_fresh ex_anonymous)))) = Some ''s3''
   \<and> map s_id (sessions (fst (handleConnection ex_env ex_db ex_fresh ex_anonymous)))
     = [''s1'', ''s2'', ''s3'', ''s4'']"
  by (simp add: handleConnection_def handshake_visitorId_def handshake_sessionId_def js_or_def
        uuid_v4_def truthy_def unless_falsy_def ensureSession_def chatSession_findUnique_def
        chatSession_update_def getHistory_def chatMessage_findMany_def Let_def
        ex_anonymous_def ex_defs)

subsection \<open>Closed sessions and the heartbeat\<close>

text \<open>
  What the other handlers do to a CLOSED session. An update rewrites the rows of one id
  and keeps every id; a message create leaves the sessions alone.
\<close>

lemma find_id_map:
  assumes "\<And>s. s_id (g s) = s_id s"
  shows "find (\<lambda>s. s_id s = i) (map (\<lambda>s. if s_id s = j then g s else s) xs)
           = map_option (\<lambda>s. if s_id s = j then g s else s) (find (\<lambda>s. s_id s = i) xs)"
  using assms by (induction xs) simp_all

lemma findUnique_id: "chatSession_findUnique db i = Some r \<Longrightarrow> s_id r = i"
  by (auto simp: chatSession_findUnique_def find_Some_iff)

lemma status_of_found: "chatSession_findUnique db i = Some r \<Longrightarrow> status_of db i = Some (s_status r)"
  by (simp add: status_of_def)

lemma status_after_update:
  assumes "chatSession_update db j t st = Inr db1"
  shows "status_of db1 i = (if i = j then Some st else status_of db i)"
proof -
  from assms have ex: "chatSession_findUnique db j \<noteq> None"
    and s: "sessions db1 =
         map (\<lambda>s. if s_id s = j then s\<lparr>s_last_active_at := t, s_status := st\<rparr> else s) (sessions db)"
    by (auto simp: chatSession_update_def split: if_splits)
  have f: "chatSession_findUnique db1 i
             = map_option (\<lambda>s. if s_id s = j then s\<lparr>s_last_active_at := t, s_status := st\<rparr> else s)
                 (chatSession_findUnique db i)"
    unfolding chatSession_findUnique_def s by (rule find_id_map) simp
  show ?thesis
  proof (cases "chatSession_findUnique db i")
    case None
    then have "i \<noteq> j" using ex by auto
    then show ?thesis using None f by (simp add: status_of_def)
  next
    case (Some r)
    then show ?thesis using f findUnique_id [OF Some] by (simp add: status_of_def)
  qed
qed

lemma status_after_message:
  "chatMessage_create d db sid r c = Inr (m, db1) \<Longrightarrow> status_of db1 i = status_of db i"
  by (auto simp: chatMessage_create_def chatSession_findUnique_def status_of_def Let_def
           split: if_splits)

text \<open>
  The write path of the message handler: the session read was not CLOSED, so a CLOSED
  session is another one and the update leaves it alone.
\<close>

lemma message_writes_keep_closed:
  assumes "status_of db i = Some CLOSED"
      and "chatSession_findUnique db sid = Some s" and "s_status s \<noteq> CLOSED"
      and "chatMessage_create d db sid r c = Inr (m, db1)"
      and "chatSession_update db1 sid t ACTIVE = Inr db2"
  shows "status_of db2 i = Some CLOSED"
proof -
  have "i \<noteq> sid"
    using assms(1,3) status_of_found [OF assms(2)] by auto
  then show ?thesis
    using status_after_update [OF assms(5), of i] status_after_message [OF assms(4), of i] assms(1)
    by simp
qed

lemma message_keeps_closed:
  assumes "status_of db i = Some CLOSED"
  shows "status_of (fst (message_handler sendToN8n e db sock payload)) i = Some CLOSED"
  using assms
  by (auto simp: message_handler_def unless_falsy_def message_failed_def Let_def
                 status_after_message message_writes_keep_closed
           split: option.splits sum.splits prod.splits if_splits)

lemma end_keeps_closed:
  assumes "status_of db i = Some CLOSED"
  shows "status_of (fst (handleEndSession e db sock payload)) i = Some CLOSED"
  using assms
  by (auto simp: handleEndSession_def unless_falsy_def end_failed_def
                 status_after_update status_after_message
           split: option.splits sum.splits prod.splits if_splits)

text \<open>
  Resolution returns a session of the repository that is not CLOSED, or a new one whose
  id was free. With distinct ids the attach therefore touches no CLOSED session.
\<close>

lemma find_distinct:
  "distinct (map f xs) \<Longrightarrow> x \<in> set xs \<Longrightarrow> find (\<lambda>s. f s = f x) xs = Some x"
  by (induction xs) auto

lemma find_append_Some: "find P xs = Some r \<Longrightarrow> find P (xs @ ys) = Some r"
  by (induction xs) (auto split: if_splits)

lemma find_Some_set: "find P xs = Some x \<Longrightarrow> x \<in> set xs"
  by (induction xs) (auto split: if_splits)

lemma ensureSession_result:
  assumes "ensureSession d db v rid = Inr (session, db1)"
  shows "(db1 = db \<and> session \<in> set (sessions db) \<and> s_status session \<noteq> CLOSED)
         \<or> (chatSession_findUnique db (s_id session) = None
            \<and> db1 = db\<lparr>sessions := sessions db @ [session]\<rparr>)"
proof -
  let ?reuse = "case rid of
              None \<Rightarrow> None
            | Some r \<Rightarrow>
                if r = [] then None
                else (case chatSession_findUnique db r of
                        None \<Rightarrow> None
                      | Some session \<Rightarrow>
                          if s_status session \<noteq> CLOSED then Some session else None)"
  show ?thesis
  proof (cases ?reuse)
    case (Some s)
    then have "s \<in> set (sessions db) \<and> s_status s \<noteq> CLOSED"
      by (auto simp: chatSession_findUnique_def dest: find_Some_set
               split: option.splits if_splits)
    moreover have "ensureSession d db v rid = Inr (s, db)"
      using Some by (simp add: ensureSession_def)
    ultimately show ?thesis using assms by simp
  next
    case None
    show ?thesis
    proof (cases "chatSession_findFirst db v")
      case (Some existing)
      have "ensureSession d db v rid = Inr (existing, db)"
        using None Some by (simp add: ensureSession_def)
      with findFirst_Some [OF Some] assms show ?thesis by simp
    next
      case n: None
      have "ensureSession d db v rid = chatSession_create d db v ACTIVE"
        using None n by (simp add: ensureSession_def)
      with assms show ?thesis
        by (auto simp: chatSession_create_def Let_def split: if_splits)
    qed
  qed
qed

lemma attach_keeps_closed:
  assumes d: "distinct (map s_id (sessions db))" and c: "status_of db i = Some CLOSED"
  shows "status_of (fst (handleConnection e db sock hs)) i = Some CLOSED"
proof (cases "ensureSession (session_defaults e) db (handshake_visitorId e db hs) (handshake_sessionId hs)")
  case (Inl err)
  then show ?thesis
    using c by (simp add: handleConnection_def connection_failed_def)
next
  case (Inr r)
  obtain session db1 where r: "r = (session, db1)" by (cases r)
  from ensureSession_result [OF Inr [unfolded r]]
  have other: "i \<noteq> s_id session" and same: "status_of db1 i = Some CLOSED"
  proof -
    assume h: "(db1 = db \<and> session \<in> set (sessions db) \<and> s_status session \<noteq> CLOSED)
         \<or> (chatSession_findUnique db (s_id session) = None
            \<and> db1 = db\<lparr>sessions := sessions db @ [session]\<rparr>)"
    from c obtain z where z: "chatSession_findUnique db i = Some z" "s_status z = CLOSED"
      by (auto simp: status_of_def)
    from h show "i \<noteq> s_id session"
    proof
      assume a: "db1 = db \<and> session \<in> set (sessions db) \<and> s_status session \<noteq> CLOSED"
      then have "chatSession_findUnique db (s_id session) = Some session"
        unfolding chatSession_findUnique_def using d by (intro find_distinct) simp_all
      with z a show ?thesis by auto
    next
      assume "chatSession_findUnique db (s_id session) = None
            \<and> db1 = db\<lparr>sessions := sessions db @ [session]\<rparr>"
      with z show ?thesis by auto
    qed
    from h show "status_of db1 i = Some CLOSED"
    proof
      assume "db1 = db \<and> session \<in> set (sessions db) \<and> s_status session \<noteq> CLOSED"
      with c show ?thesis by simp
    next
      assume "chatSession_findUnique db (s_id session) = None
            \<and> db1 = db\<lparr>sessions := sessions db @ [session]\<rparr>"
      then have "chatSession_findUnique db1 i = Some z"
        using z(1) by (simp add: chatSession_findUnique_def find_append_Some)
      with z show ?thesis by (simp add: status_of_def)
    qed
  qed
  show ?thesis
  proof (cases "chatSession_update db1 (s_id session) (now e) ACTIVE")
    case (Inl err)
    then show ?thesis
      using Inr r same by (simp add: handleConnection_def connection_failed_def Let_def)
  next
    case (Inr db2)
    from status_after_update [OF Inr, of i] other same
    have "status_of db2 i = Some CLOSED" by simp
    then show ?thesis
      using \<open>ensureSession (session_defaults e) db (handshake_visitorId e db hs) (handshake_sessionId hs) = Inr r\<close>
        r Inr
      by (simp add: handleConnection_def Let_def)
  qed
qed

lemma update_keeps_ids:
  "chatSession_update db j t st = Inr db1 \<Longrightarrow> map s_id (sessions db1) = map s_id (sessions db)"
  by (auto simp: chatSession_update_def split: if_splits)

text \<open>
  Every handler keeps the ids of the sessions distinct.
\<close>

lemma message_create_keeps_sessions:
  "chatMessage_create d db sid r c = Inr (m, db1) \<Longrightarrow> sessions db1 = sessions db"
  by (auto simp: chatMessage_create_def Let_def split: if_splits)

lemma socket_on_keeps_ids:
  "map s_id (sessions (fst (socket_on sendToN8n e db sock ev))) = map s_id (sessions db)"
proof (cases ev)
  case (on_message payload)
  then show ?thesis
    by (auto simp: socket_on_def message_handler_def unless_falsy_def message_failed_def Let_def
                   update_keeps_ids message_create_keeps_sessions
             split: option.splits sum.splits prod.splits if_splits)
next
  case (on_heartbeat payload)
  then show ?thesis
    by (auto simp: socket_on_def heartbeat_handler_def unless_falsy_def update_keeps_ids
             split: option.splits sum.splits if_splits)
next
  case (on_endSession payload)
  then show ?thesis
    by (auto simp: socket_on_def handleEndSession_def unless_falsy_def end_failed_def
                   update_keeps_ids message_create_keeps_sessions
             split: option.splits sum.splits prod.splits if_splits)
next
  case (on_end_chat payload)
  then show ?thesis
    by (auto simp: socket_on_def handleEndSession_def unless_falsy_def end_failed_def
                   update_keeps_ids message_create_keeps_sessions
             split: option.splits sum.splits prod.splits if_splits)
qed

lemma attach_keeps_distinct:
  assumes "distinct (map s_id (sessions db))"
  shows "distinct (map s_id (sessions (fst (handleConnection e db sock hs))))"
proof (cases "ensureSession (session_defaults e) db (handshake_visitorId e db hs) (handshake_sessionId hs)")
  case (Inl err)
  then show ?thesis
    using assms by (simp add: handleConnection_def connection_failed_def)
next
  case (Inr r)
  obtain session db1 where r: "r = (session, db1)" by (cases r)
  have d1: "distinct (map s_id (sessions db1))"
  proof -
    from ensureSession_result [OF Inr [unfolded r]] show ?thesis
    proof
      assume "db1 = db \<and> session \<in> set (sessions db) \<and> s_status session \<noteq> CLOSED"
      with assms show ?thesis by simp
    next
      assume a: "chatSession_findUnique db (s_id session) = None
            \<and> db1 = db\<lparr>sessions := sessions db @ [session]\<rparr>"
      then have "\<forall>s\<in>set (sessions db). s_id s \<noteq> s_id session"
        by (intro findUnique_None_ids) simp
      then have "s_id session \<notin> s_id ` set (sessions db)" by auto
      with a assms show ?thesis by simp
    qed
  qed
  show ?thesis
  proof (cases "chatSession_update db1 (s_id session) (now e) ACTIVE")
    case (Inl err)
    then show ?thesis
      using Inr r d1 by (simp add: handleConnection_def connection_failed_def Let_def)
  next
    case u: (Inr db2)
    from update_keeps_ids [OF u] d1 have "distinct (map s_id (sessions db2))" by simp
    then show ?thesis
      using Inr r u by (simp add: handleConnection_def Let_def)
  qed
qed

text \<open>
  With ids distinct and no heartbeat among the steps, a CLOSED session is CLOSED after
  the run, and resolution does not return it.
\<close>

lemma ensureSession_never_closed:
  assumes "distinct (map s_id (sessions db))" and "status_of db i = Some CLOSED"
      and "ensureSession d db v rid = Inr (session, db1)"
  shows "s_id session \<noteq> i"
proof -
  from assms(2) obtain z where z: "chatSession_findUnique db i = Some z" "s_status z = CLOSED"
    by (auto simp: status_of_def)
  from ensureSession_result [OF assms(3)] show ?thesis
  proof
    assume a: "db1 = db \<and> session \<in> set (sessions db) \<and> s_status session \<noteq> CLOSED"
    then have "chatSession_findUnique db (s_id session) = Some session"
      unfolding chatSession_findUnique_def using assms(1) by (intro find_distinct) simp_all
    with z a show ?thesis by auto
  next
    assume "chatSession_findUnique db (s_id session) = None
            \<and> db1 = db\<lparr>sessions := sessions db @ [session]\<rparr>"
    with z show ?thesis by auto
  qed
qed

lemma socket_on_keeps_closed:
  assumes "status_of db i = Some CLOSED" and "\<not> is_heartbeat (event e sock ev)"
  shows "status_of (fst (socket_on sendToN8n e db sock ev)) i = Some CLOSED"
proof (cases ev)
  case (on_message payload)
  then show ?thesis
    using message_keeps_closed [OF assms(1)] assms(1) by (simp add: socket_on_def)
next
  case (on_heartbeat payload)
  then show ?thesis using assms(2) by simp
next
  case (on_endSession payload)
  then show ?thesis
    using end_keeps_closed [OF assms(1)] assms(1) by (simp add: socket_on_def)
next
  case (on_end_chat payload)
  then show ?thesis
    using end_keeps_closed [OF assms(1)] assms(1) by (simp add: socket_on_def)
qed

lemma run_step_keeps_closed:
  assumes "distinct (map s_id (sessions db))" and "status_of db i = Some CLOSED"
      and "\<not> is_heartbeat st"
  shows "distinct (map s_id (sessions (run_step sendToN8n db st)))
         \<and> status_of (run_step sendToN8n db st) i = Some CLOSED"
proof (cases st)
  case (attach e sock hs)
  then show ?thesis
    using attach_keeps_distinct [OF assms(1)] attach_keeps_closed [OF assms(1,2)] by simp
next
  case (event e sock ev)
  then show ?thesis
    using socket_on_keeps_ids [of sendToN8n e db sock ev] socket_on_keeps_closed [of db i e sock ev]
      assms by simp
qed

lemma run_keeps_closed:
  assumes "distinct (map s_id (sessions db))" and "status_of db i = Some CLOSED"
      and "\<forall>st\<in>set steps. \<not> is_heartbeat st"
  shows "distinct (map s_id (sessions (run sendToN8n db steps)))
         \<and> status_of (run sendToN8n db steps) i = Some CLOSED"
  using assms unfolding run_def
proof (induction steps arbitrary: db)
  case Nil
  then show ?case by simp
next
  case (Cons st steps)
  from run_step_keeps_closed [OF Cons.prems(1,2), of st sendToN8n] Cons.prems(3)
  have "distinct (map s_id (sessions (run_step sendToN8n db st)))"
    and "status_of (run_step sendToN8n db st) i = Some CLOSED"
    by simp_all
  from Cons.IH [OF this] Cons.prems(3) show ?case by simp
qed

lemma closed_not_resolved_without_heartbeat:
  assumes "distinct (map s_id (sessions db))" and "status_of db i = Some CLOSED"
      and "\<forall>st\<in>set steps. \<not> is_heartbeat st"
      and "ensureSession d (run sendToN8n db steps) v rid = Inr (session, db1)"
  shows "s_id session \<noteq> i"
proof -
  from run_keeps_closed [OF assms(1,2,3), of sendToN8n]
  have "distinct (map s_id (sessions (run sendToN8n db steps)))"
    and "status_of (run sendToN8n db steps) i = Some CLOSED"
    by simp_all
  then show ?thesis using assms(4) by (rule ensureSession_never_closed)
qed

text \<open>
  C1. The heartbeat handler sets the status to ACTIVE whatever it was: a heartbeat
  that names the closed session s2 leaves it ACTIVE. The message handler returns
  before any write when the session is CLOSED; the heartbeat handler has no such test.
\<close>

theorem heartbeat_reopens_closed_session:
  "status_of ex_db ''s2'' = Some CLOSED
   \<and> status_of
        (fst (socket_on n8n_ok ex_env ex_db ex_socket (on_heartbeat \<lparr>hb_sessionId = Some ''s2''\<rparr>)))
        ''s2'' = Some ACTIVE"
  by (simp add: status_of_def socket_on_def heartbeat_handler_def nullish_def unless_falsy_def
        chatSession_update_def chatSession_findUnique_def ex_defs)

lemma ex_ended_eq:
  "ex_ended =
     \<lparr>sessions =
        [(ex_session ''s1'' ''v1'' CLOSED 10)\<lparr>s_last_active_at := 100\<rparr>,
         ex_session ''s2'' ''v1'' CLOSED 20, ex_session ''s3'' ''v2'' ACTIVE 30,
         ex_session ''s4'' ''v2'' ACTIVE 40],
      messages =
        messages ex_db @ [ex_message ''m8'' ''s1'' SYSTEM ''Chat session ended by user.'' 101]\<rparr>"
  by (simp add: ex_ended_def socket_on_def handleEndSession_def nullish_def unless_falsy_def
        chatSession_update_def chatSession_findUnique_def chatMessage_create_def Let_def
        ex_defs)

lemma ex_revived_eq:
  "ex_revived =
     \<lparr>sessions =
        [(ex_session ''s1'' ''v1'' ACTIVE 10)\<lparr>s_last_active_at := 100\<rparr>,
         ex_session ''s2'' ''v1'' CLOSED 20, ex_session ''s3'' ''v2'' ACTIVE 30,
         ex_session ''s4'' ''v2'' ACTIVE 40],
      messages =
        messages ex_db @ [ex_message ''m8'' ''s1'' SYSTEM ''Chat session ended by user.'' 101]\<rparr>"
  unfolding ex_revived_def ex_ended_eq
  by (simp add: socket_on_def heartbeat_handler_def nullish_def unless_falsy_def
        chatSession_update_def chatSession_findUnique_def ex_defs)

text \<open>
  C9. After one tab has ended session s1, an attach that asks for s1 gets the new
  session s9. Once the other tab, still bound to s1, has sent its heartbeat, s1 is
  ACTIVE again and an attach that asks for s1 gets s1.
\<close>

theorem closed_session_reused_after_heartbeat:
  "status_of ex_ended ''s1'' = Some CLOSED
   \<and> sessionId (data (fst (snd (handleConnection ex_env ex_ended ex_fresh ex_returning)))) = Some ''s9''
   \<and> status_of ex_revived ''s1'' = Some ACTIVE
   \<and> sessionId (data (fst (snd (handleConnection ex_env ex_revived ex_fresh ex_returning)))) = Some ''s1''"
  unfolding ex_revived_eq ex_ended_eq
  by (simp add: status_of_def
        handleConnection_def handshake_visitorId_def handshake_sessionId_def js_or_def
        truthy_def unless_falsy_def ensureSession_def chatSession_findUnique_def
        chatSession_findFirst_def chatSession_create_def
        chatSession_update_def getHistory_def chatMessage_findMany_def Let_def
        ex_returning_def ex_defs)

end
